theory Spec2Isabelle
  imports Main "HOL-Library.Word"
begin

unbundle bit_operations_syntax

section \<open>The Energenie MiHome driver (hw/energenie/mihome.go)\<close>

text \<open>
  A shallow embedding of the legacy OOK command codec, the socket command table, the
  radio-mode handling of \<open>SendControl\<close> and \<open>Receive\<close>, and the receive loop of
  the \<open>mihome\<close> driver. Names follow the Go source.
\<close>

subsection \<open>Bytes, errors and constants\<close>

type_synonym byte = "8 word"

text \<open>
  The error values the driver returns. \<open>ErrBadParameter\<close>, \<open>ErrNotImplemented\<close>
  and \<open>ErrAppError\<close> are the gopi errors named in the source; \<open>ErrTransceiver\<close>
  stands for an error value handed back by the transceiver (the number tells such values
  apart), \<open>ErrDecode\<close> for a failure reported by the protocol decoder, and
  \<open>InvalidByteError\<close> and \<open>ErrLength\<close> are the two errors of Go's encoding/hex.
\<close>

datatype error =
    ErrBadParameter
  | ErrNotImplemented
  | ErrAppError
  | ErrTransceiver nat
  | ErrDecode nat
  | InvalidByteError char
  | ErrLength

definition CID_DEFAULT :: string where
  "CID_DEFAULT = ''6C6C6''"

definition REPEAT_DEFAULT :: nat where
  "REPEAT_DEFAULT = 8"

definition OOK_PREAMBLE :: "byte list" where
  "OOK_PREAMBLE = [0x80, 0x00, 0x00, 0x00]"

definition OOK_ZERO :: byte where
  "OOK_ZERO = 0x08"

definition OOK_ONE :: byte where
  "OOK_ONE = 0x0E"

text \<open>\<open>type Command byte\<close> and its constants.\<close>

type_synonym Command = byte

definition OOK_NONE :: Command where "OOK_NONE = 0x00"
definition OOK_ON_ALL :: Command where "OOK_ON_ALL = 0x0D"
definition OOK_OFF_ALL :: Command where "OOK_OFF_ALL = 0x0C"
definition OOK_ON_1 :: Command where "OOK_ON_1 = 0x0F"
definition OOK_OFF_1 :: Command where "OOK_OFF_1 = 0x0E"
definition OOK_ON_2 :: Command where "OOK_ON_2 = 0x07"
definition OOK_OFF_2 :: Command where "OOK_OFF_2 = 0x06"
definition OOK_ON_3 :: Command where "OOK_ON_3 = 0x0B"
definition OOK_OFF_3 :: Command where "OOK_OFF_3 = 0x0A"
definition OOK_ON_4 :: Command where "OOK_ON_4 = 0x03"
definition OOK_OFF_4 :: Command where "OOK_OFF_4 = 0x02"

subsection \<open>Hex decoding of the device address\<close>

text \<open>
  \<open>decodeHexString\<close> pads its argument with a leading \<open>0\<close> while the length is
  odd and hands it to \<open>hex.DecodeString\<close> of Go's standard library. The library
  function is modelled as it is documented and written: the characters are read in pairs,
  each pair giving one byte; a character that is no hexadecimal digit gives
  \<open>InvalidByteError\<close>, a single character left over gives \<open>ErrLength\<close> (after the
  same check of that character).
\<close>

definition fromHexChar :: "char \<Rightarrow> byte option" where
  "fromHexChar c =
     (let n = (of_char c :: nat) in
      if 48 \<le> n \<and> n \<le> 57 then Some (of_nat (n - 48))
      else if 97 \<le> n \<and> n \<le> 102 then Some (of_nat (n - 97 + 10))
      else if 65 \<le> n \<and> n \<le> 70 then Some (of_nat (n - 65 + 10))
      else None)"

fun hex_DecodeString :: "string \<Rightarrow> error + byte list" where
  "hex_DecodeString [] = Inr []"
| "hex_DecodeString [p] =
     (case fromHexChar p of None \<Rightarrow> Inl (InvalidByteError p) | Some a \<Rightarrow> Inl ErrLength)"
| "hex_DecodeString (p # q # rest) =
     (case fromHexChar p of
        None \<Rightarrow> Inl (InvalidByteError p)
      | Some a \<Rightarrow>
          (case fromHexChar q of
             None \<Rightarrow> Inl (InvalidByteError q)
           | Some b \<Rightarrow>
               (case hex_DecodeString rest of
                  Inl e \<Rightarrow> Inl e
                | Inr bs \<Rightarrow> Inr ((push_bit 4 a OR b) # bs))))"

text \<open>The padding loop \<open>for len(value)%2 != 0 { value = "0" + value }\<close>.\<close>

function pad_even :: "string \<Rightarrow> string" where
  "pad_even v = (if length v mod 2 \<noteq> 0 then pad_even (CHR ''0'' # v) else v)"
  by pat_completeness auto
termination
  by (relation "measure (\<lambda>v. length v mod 2)") (auto, presburger)

definition decodeHexString :: "string \<Rightarrow> error + byte list" where
  "decodeHexString v = hex_DecodeString (pad_even v)"

subsection \<open>The OOK command codec\<close>

text \<open>
  \<open>encodeByte\<close>: the outer loop runs \<open>i = 0..3\<close>, the inner loop \<open>j = 0..1\<close>.
  The inner loop shifts the byte under construction left by four, sets the low nibble
  from the top bit of \<open>value\<close>, and shifts \<open>value\<close> left by one. Both loops have
  constant bounds; they are recursions on the number of rounds left.
\<close>

fun encodeByte_inner :: "nat \<Rightarrow> byte \<Rightarrow> byte \<Rightarrow> byte \<times> byte" where
  "encodeByte_inner 0 by v = (by, v)"
| "encodeByte_inner (Suc j) by v =
     (let by1 = push_bit 4 by;
          by2 = (if v AND 0x80 = 0 then by1 OR OOK_ZERO else by1 OR OOK_ONE)
      in encodeByte_inner j by2 (push_bit 1 v))"

fun encodeByte_outer :: "nat \<Rightarrow> byte \<Rightarrow> byte list" where
  "encodeByte_outer 0 v = []"
| "encodeByte_outer (Suc i) v =
     (let (by, v') = encodeByte_inner 2 0 v in by # encodeByte_outer i v')"

definition encodeByte :: "byte \<Rightarrow> byte list" where
  "encodeByte v = encodeByte_outer 4 v"

text \<open>
  A Go slice can be \<open>nil\<close>; \<open>None\<close> is the nil slice, \<open>Some []\<close> the empty one.
  \<open>len\<close> of the nil slice is 0, so in \<open>encodeCommandPayload\<close> the nil encoding
  takes the branch of a length other than 12.
\<close>

definition encodeByteArray :: "byte list option \<Rightarrow> byte list option" where
  "encodeByteArray array =
     (case array of
        None \<Rightarrow> None
      | Some bs \<Rightarrow> Some (concat (map encodeByte bs)))"

definition encodeCommandPayload :: "byte list option \<Rightarrow> Command \<Rightarrow> error + byte list" where
  "encodeCommandPayload cid cmd =
     (let encoded_cmd = encodeByte cmd in
      if length encoded_cmd \<noteq> 4 then Inl ErrAppError
      else
        (case encodeByteArray cid of
           None \<Rightarrow> Inl ErrAppError
         | Some encoded_cid \<Rightarrow>
             if length encoded_cid \<noteq> 12 then Inl ErrAppError
             else Inr (OOK_PREAMBLE @ drop 2 encoded_cid @ drop 2 encoded_cmd)))"

text \<open>
  The codec as the specification words it, for comparison with \<open>encodeByte\<close>: a bit
  becomes the nibble \<open>0x8\<close> or \<open>0xE\<close>, two nibbles are packed per byte, the bits are
  taken most significant first; decoding applies the inverse nibble mapping.
\<close>

definition nibble_of_bit :: "bool \<Rightarrow> byte" where
  "nibble_of_bit b = (if b then 0xE else 0x8)"

definition pack_nibbles :: "byte \<Rightarrow> byte \<Rightarrow> byte" where
  "pack_nibbles hi lo = push_bit 4 hi OR lo"

definition spec_EncodeByte :: "byte \<Rightarrow> byte list" where
  "spec_EncodeByte b =
     [pack_nibbles (nibble_of_bit (bit b 7)) (nibble_of_bit (bit b 6)),
      pack_nibbles (nibble_of_bit (bit b 5)) (nibble_of_bit (bit b 4)),
      pack_nibbles (nibble_of_bit (bit b 3)) (nibble_of_bit (bit b 2)),
      pack_nibbles (nibble_of_bit (bit b 1)) (nibble_of_bit (bit b 0))]"

definition bit_of_nibble :: "byte \<Rightarrow> bool option" where
  "bit_of_nibble n = (if n = 0x8 then Some False else if n = 0xE then Some True else None)"

fun decode_bits :: "byte list \<Rightarrow> bool list option" where
  "decode_bits [] = Some []"
| "decode_bits (x # xs) =
     (case bit_of_nibble (drop_bit 4 x) of
        None \<Rightarrow> None
      | Some h \<Rightarrow>
          (case bit_of_nibble (x AND 0x0F) of
             None \<Rightarrow> None
           | Some l \<Rightarrow>
               (case decode_bits xs of None \<Rightarrow> None | Some r \<Rightarrow> Some (h # l # r))))"

definition byte_of_bits :: "bool list \<Rightarrow> byte" where
  "byte_of_bits bs = foldl (\<lambda>acc x. 2 * acc + of_bool x) 0 bs"

definition spec_DecodeByte :: "byte list \<Rightarrow> byte option" where
  "spec_DecodeByte enc =
     (case decode_bits enc of
        None \<Rightarrow> None
      | Some bs \<Rightarrow> if length bs = 8 then Some (byte_of_bits bs) else None)"

subsection \<open>The socket command table\<close>

text \<open>
  In the default case the Go functions return \<open>OOK_NONE\<close> together with the error; both
  callers drop the command when the error is set, so the model returns the error alone.
\<close>

definition onCommandForSocket :: "nat \<Rightarrow> error + Command" where
  "onCommandForSocket socket =
     (if socket = 1 then Inr OOK_ON_1
      else if socket = 2 then Inr OOK_ON_2
      else if socket = 3 then Inr OOK_ON_3
      else if socket = 4 then Inr OOK_ON_4
      else Inl ErrBadParameter)"

definition offCommandForSocket :: "nat \<Rightarrow> error + Command" where
  "offCommandForSocket socket =
     (if socket = 1 then Inr OOK_OFF_1
      else if socket = 2 then Inr OOK_OFF_2
      else if socket = 3 then Inr OOK_OFF_3
      else if socket = 4 then Inr OOK_OFF_4
      else Inl ErrBadParameter)"

subsection \<open>What the driver is given: transceiver, GPIO, decoder, context\<close>

text \<open>
  The declarations of package \<open>sensors\<close> and of \<open>gopi\<close> are not among the source
  files. The values the driver names are constructors here; \<open>RFM_MODE_OTHER\<close> and
  \<open>RFM_MODULATION_OTHER\<close> stand for every value the driver does not name. The driver
  only compares these values and passes them on.
\<close>

datatype MiHomeMode = MIHOME_MODE_NONE | MIHOME_MODE_MONITOR | MIHOME_MODE_CONTROL

datatype RFMMode = RFM_MODE_STDBY | RFM_MODE_TX | RFM_MODE_RX | RFM_MODE_OTHER nat

datatype RFMModulation = RFM_MODULATION_FSK | RFM_MODULATION_OOK | RFM_MODULATION_OTHER nat

datatype RFMConst =
    RFM_AFCMODE_OFF
  | RFM_AFCROUTINE_STANDARD
  | RFM_LNA_IMPEDANCE_50
  | RFM_LNA_GAIN_AUTO
  | RFM_RXBW_FREQUENCY_FSK_62P5
  | RFM_RXBW_CUTOFF_4
  | RFM_DATAMODE_PACKET
  | RFM_PACKET_FORMAT_VARIABLE
  | RFM_PACKET_CODING_MANCHESTER
  | RFM_PACKET_CODING_NONE
  | RFM_PACKET_FILTER_NONE
  | RFM_PACKET_CRC_OFF

datatype GPIOPin = GPIO_PIN_NONE | GPIO_PIN nat

datatype GPIOState = GPIO_LOW | GPIO_HIGH

text \<open>
  The calls on the transceiver that return only an error. A byte slice argument is
  \<open>None\<close> for \<open>nil\<close>.
\<close>

datatype call =
    SetMode RFMMode
  | SetModulation RFMModulation
  | SetSequencer bool
  | SetBitrate nat
  | SetFreqCarrier nat
  | SetFreqDeviation nat
  | SetAFCMode RFMConst
  | SetAFCRoutine RFMConst
  | SetLNA RFMConst RFMConst
  | SetRXFilter RFMConst RFMConst
  | SetDataMode RFMConst
  | SetPacketFormat RFMConst
  | SetPacketCoding RFMConst
  | SetPacketFilter RFMConst
  | SetPacketCRC RFMConst
  | SetPreambleSize nat
  | SetPayloadSize nat
  | SetSyncWord "byte list option"
  | SetSyncTolerance nat
  | SetNodeAddress byte
  | SetBroadcastAddress byte
  | SetAESKey "byte list option"
  | SetFIFOThreshold nat
  | ClearFIFO
  | WritePayload "byte list" nat

text \<open>
  \<open>monitor_rx_event\<close> as \<open>emitMessage\<close> fills it: the time, the message and the
  reason. (The \<open>driver\<close> field points back at the driver; \<open>rssi\<close> is never set.)
\<close>

record 'm monitor_rx_event =
  ts :: nat
  message :: 'm
  reason :: "error option"

text \<open>
  Everything the driver does to the outside is recorded in a trace, oldest first: a call
  on the transceiver, a payload read, the two GPIO calls (the pin mode set is always
  \<open>GPIO_OUTPUT\<close>), an event handed to the publisher, and a line written with
  \<open>log.Error\<close>. (\<open>log.Debug\<close> lines are not recorded.)
\<close>

datatype 'm effect =
    Radio call
  | Read
  | SetPinMode GPIOPin
  | WritePin GPIOPin GPIOState
  | Emit "'m monitor_rx_event"
  | LogError error

text \<open>
  The collaborators, over a state \<open>'w\<close> of the outside world that every call on the
  transceiver may change: the two getters, the calls that return an error, the payload
  read (an error, \<open>nil\<close> data or data), the protocol decoder (a message or \<open>nil\<close>,
  and a reason or \<open>nil\<close>), whether the context is done, and the clock. The GPIO calls
  return nothing and the driver reads nothing back from them, so they appear in the trace
  only.
\<close>

record ('w, 'm) collaborators =
  Modulation :: "'w \<Rightarrow> RFMModulation"
  Mode :: "'w \<Rightarrow> RFMMode"
  radio :: "call \<Rightarrow> 'w \<Rightarrow> error option \<times> 'w"
  ReadPayload :: "'w \<Rightarrow> (error + byte list option) \<times> 'w"
  Decode :: "byte list \<Rightarrow> 'm option \<times> error option"
  Done :: "'w \<Rightarrow> bool"
  Now :: "'w \<Rightarrow> nat"

subsection \<open>The driver\<close>

text \<open>The struct \<open>mihome\<close>, with the outside world and the trace.\<close>

record ('w, 'm) mihome =
  world :: 'w
  reset :: GPIOPin
  cid :: "byte list option"
  repeat :: nat
  led1 :: GPIOPin
  led2 :: GPIOPin
  ledrx :: GPIOPin
  ledtx :: GPIOPin
  mode :: MiHomeMode
  trace :: "'m effect list"

text \<open>
  The configuration \<open>MiHome\<close>. The three interface fields count only as nil or not;
  \<open>TempOffset\<close> is left out (it is used by \<open>MeasureTemperature\<close> alone).
\<close>

record MiHome =
  GPIO_nil :: bool
  Radio_nil :: bool
  OpenThings_nil :: bool
  PinReset :: GPIOPin
  PinLED1 :: GPIOPin
  PinLED2 :: GPIOPin
  CID :: string
  Repeat :: nat

definition Open :: "MiHome \<Rightarrow> 'w \<Rightarrow> error + ('w, 'm) mihome" where
  "Open config w =
     (let cid_str = (if CID config = [] then CID_DEFAULT else CID config);
          rpt = (if Repeat config = 0 then REPEAT_DEFAULT else Repeat config)
      in
      if GPIO_nil config \<or> Radio_nil config \<or> OpenThings_nil config then Inl ErrBadParameter
      else
        (case decodeHexString cid_str of
           Inl err \<Rightarrow> Inl err
         | Inr c \<Rightarrow>
             Inr \<lparr> world = w,
                   reset = PinReset config,
                   cid = Some c,
                   repeat = rpt,
                   led1 = PinLED1 config,
                   led2 = PinLED2 config,
                   ledrx = (if PinLED2 config = GPIO_PIN_NONE then PinLED1 config
                            else if PinLED1 config = GPIO_PIN_NONE then PinLED2 config
                            else PinLED1 config),
                   ledtx = (if PinLED2 config = GPIO_PIN_NONE then PinLED1 config
                            else PinLED2 config),
                   mode = MIHOME_MODE_NONE,
                   trace = [] \<rparr>))"

text \<open>\<open>type LED uint\<close> and its constants.\<close>

type_synonym LED = nat

definition LED_ALL :: LED where "LED_ALL = 0"
definition LED_1 :: LED where "LED_1 = 1"
definition LED_2 :: LED where "LED_2 = 2"
definition LED_RX :: LED where "LED_RX = 3"
definition LED_TX :: LED where "LED_TX = 4"

definition gpio_write :: "GPIOPin \<Rightarrow> GPIOState \<Rightarrow> ('w, 'm) mihome \<Rightarrow> ('w, 'm) mihome" where
  "gpio_write pin state s = s\<lparr>trace := trace s @ [SetPinMode pin, WritePin pin state]\<rparr>"

text \<open>
  \<open>SetLED\<close>. The case \<open>LED_ALL\<close> calls \<open>SetLED\<close> again for \<open>LED_1\<close> and
  \<open>LED_2\<close>; the other cases are \<open>SetLED_single\<close>.
\<close>

definition SetLED_single ::
  "LED \<Rightarrow> GPIOState \<Rightarrow> ('w, 'm) mihome \<Rightarrow> error option \<times> ('w, 'm) mihome" where
  "SetLED_single led state s =
     (if led = LED_1 then
        (if led1 s = GPIO_PIN_NONE then (Some ErrNotImplemented, s)
         else (None, gpio_write (led1 s) state s))
      else if led = LED_2 then
        (if led2 s = GPIO_PIN_NONE then (Some ErrNotImplemented, s)
         else (None, gpio_write (led2 s) state s))
      else if led = LED_RX then
        (if ledrx s = GPIO_PIN_NONE then (None, s)
         else (None, gpio_write (ledrx s) state s))
      else if led = LED_TX then
        (if ledtx s = GPIO_PIN_NONE then (None, s)
         else (None, gpio_write (ledtx s) state s))
      else (Some ErrBadParameter, s))"

definition SetLED ::
  "LED \<Rightarrow> GPIOState \<Rightarrow> ('w, 'm) mihome \<Rightarrow> error option \<times> ('w, 'm) mihome" where
  "SetLED led state s =
     (if led = LED_ALL then
        (case (if led1 s \<noteq> GPIO_PIN_NONE then SetLED_single LED_1 state s else (None, s)) of
           (Some err, s1) \<Rightarrow> (Some err, s1)
         | (None, s1) \<Rightarrow>
             (if led2 s1 \<noteq> GPIO_PIN_NONE then SetLED_single LED_2 state s1 else (None, s1)))
      else SetLED_single led state s)"

text \<open>One call on the transceiver: the world moves on and the call is recorded.\<close>

definition radio_call ::
  "('w, 'm) collaborators \<Rightarrow> call \<Rightarrow> ('w, 'm) mihome \<Rightarrow> error option \<times> ('w, 'm) mihome" where
  "radio_call R c s =
     (case radio R c (world s) of
        (e, w') \<Rightarrow> (e, s\<lparr>world := w', trace := trace s @ [Radio c]\<rparr>))"

text \<open>
  \<open>setFSKMode\<close> and \<open>setOOKMode\<close> are chains
  \<open>if err := call1; err != nil { return err } else if err := call2; ...\<close>: the calls
  are made in order and the first error is returned. \<open>radio_chain\<close> is that chain over
  the list of calls.
\<close>

fun radio_chain ::
  "('w, 'm) collaborators \<Rightarrow> call list \<Rightarrow> ('w, 'm) mihome \<Rightarrow> error option \<times> ('w, 'm) mihome" where
  "radio_chain R [] s = (None, s)"
| "radio_chain R (c # cs) s =
     (case radio_call R c s of
        (Some err, s1) \<Rightarrow> (Some err, s1)
      | (None, s1) \<Rightarrow> radio_chain R cs s1)"

definition fsk_calls :: "call list" where
  "fsk_calls =
     [SetMode RFM_MODE_STDBY,
      SetModulation RFM_MODULATION_FSK,
      SetSequencer True,
      SetBitrate 4800,
      SetFreqCarrier 434300000,
      SetFreqDeviation 30000,
      SetAFCMode RFM_AFCMODE_OFF,
      SetAFCRoutine RFM_AFCROUTINE_STANDARD,
      SetLNA RFM_LNA_IMPEDANCE_50 RFM_LNA_GAIN_AUTO,
      SetRXFilter RFM_RXBW_FREQUENCY_FSK_62P5 RFM_RXBW_CUTOFF_4,
      SetDataMode RFM_DATAMODE_PACKET,
      SetPacketFormat RFM_PACKET_FORMAT_VARIABLE,
      SetPacketCoding RFM_PACKET_CODING_MANCHESTER,
      SetPacketFilter RFM_PACKET_FILTER_NONE,
      SetPacketCRC RFM_PACKET_CRC_OFF,
      SetPreambleSize 3,
      SetPayloadSize 0x40,
      SetSyncWord (Some [0x2D, 0xD4]),
      SetSyncTolerance 0,
      SetNodeAddress 0x04,
      SetBroadcastAddress 0xFF,
      SetAESKey None,
      SetFIFOThreshold 1]"

definition ook_calls :: "call list" where
  "ook_calls =
     [SetMode RFM_MODE_STDBY,
      SetModulation RFM_MODULATION_OOK,
      SetSequencer True,
      SetBitrate 4800,
      SetFreqCarrier 433920000,
      SetFreqDeviation 0,
      SetAFCMode RFM_AFCMODE_OFF,
      SetDataMode RFM_DATAMODE_PACKET,
      SetPacketFormat RFM_PACKET_FORMAT_VARIABLE,
      SetPacketCoding RFM_PACKET_CODING_NONE,
      SetPacketFilter RFM_PACKET_FILTER_NONE,
      SetPacketCRC RFM_PACKET_CRC_OFF,
      SetPreambleSize 0,
      SetPayloadSize 0,
      SetSyncWord None,
      SetAESKey None,
      SetFIFOThreshold 1]"

definition setFSKMode ::
  "('w, 'm) collaborators \<Rightarrow> ('w, 'm) mihome \<Rightarrow> error option \<times> ('w, 'm) mihome" where
  "setFSKMode R s = radio_chain R fsk_calls s"

definition setOOKMode ::
  "('w, 'm) collaborators \<Rightarrow> ('w, 'm) mihome \<Rightarrow> error option \<times> ('w, 'm) mihome" where
  "setOOKMode R s = radio_chain R ook_calls s"

text \<open>
  \<open>SendControl\<close>. The source is one \<open>if ... else if ...\<close> chain: the bad-parameter
  check, the payload, the branch that reconfigures the transceiver, \<open>SetMode(TX)\<close>,
  \<open>SetSequencer(true)\<close>, and the final \<open>else\<close> with the LED and the payload write;
  a branch that is taken and does not return falls through to \<open>return nil\<close>. The
  deferred \<open>SetLED(LED_TX, LOW)\<close> runs when the function returns from the last branch.
\<close>

definition SendControl ::
  "('w, 'm) collaborators \<Rightarrow> byte list option \<Rightarrow> Command \<Rightarrow> nat \<Rightarrow> ('w, 'm) mihome
     \<Rightarrow> error option \<times> ('w, 'm) mihome" where
  "SendControl R c cmd rpt s =
     (if rpt = 0 \<or> c = None then (Some ErrBadParameter, s)
      else
        (case encodeCommandPayload c cmd of
           Inl err \<Rightarrow> (Some err, s)
         | Inr payload \<Rightarrow>
             if Modulation R (world s) \<noteq> RFM_MODULATION_OOK \<or> mode s \<noteq> MIHOME_MODE_CONTROL then
               (case setOOKMode R s of
                  (Some err, s1) \<Rightarrow> (Some err, s1)
                | (None, s1) \<Rightarrow> (None, s1\<lparr>mode := MIHOME_MODE_CONTROL\<rparr>))
             else
               (case radio_call R (SetMode RFM_MODE_TX) s of
                  (Some err, s1) \<Rightarrow> (Some err, s1)
                | (None, s1) \<Rightarrow>
                    (case radio_call R (SetSequencer True) s1 of
                       (Some err, s2) \<Rightarrow> (Some err, s2)
                     | (None, s2) \<Rightarrow>
                         (let s3 = snd (SetLED LED_TX GPIO_HIGH s2) in
                          case radio_call R (WritePayload payload rpt) s3 of
                            (Some err, s4) \<Rightarrow> (Some err, snd (SetLED LED_TX GPIO_LOW s4))
                          | (None, s4) \<Rightarrow> (None, snd (SetLED LED_TX GPIO_LOW s4)))))))"

text \<open>\<open>On\<close> and \<open>Off\<close>: the all-sockets command for no argument, else the loop.\<close>

fun On_sockets ::
  "('w, 'm) collaborators \<Rightarrow> nat list \<Rightarrow> ('w, 'm) mihome \<Rightarrow> error option \<times> ('w, 'm) mihome" where
  "On_sockets R [] s = (None, s)"
| "On_sockets R (socket # rest) s =
     (case onCommandForSocket socket of
        Inl err \<Rightarrow> (Some err, s)
      | Inr cmd \<Rightarrow>
          (case SendControl R (cid s) cmd (repeat s) s of
             (Some err, s1) \<Rightarrow> (Some err, s1)
           | (None, s1) \<Rightarrow> On_sockets R rest s1))"

definition On ::
  "('w, 'm) collaborators \<Rightarrow> nat list \<Rightarrow> ('w, 'm) mihome \<Rightarrow> error option \<times> ('w, 'm) mihome" where
  "On R sockets s =
     (if length sockets = 0 then SendControl R (cid s) OOK_ON_ALL (repeat s) s
      else On_sockets R sockets s)"

fun Off_sockets ::
  "('w, 'm) collaborators \<Rightarrow> nat list \<Rightarrow> ('w, 'm) mihome \<Rightarrow> error option \<times> ('w, 'm) mihome" where
  "Off_sockets R [] s = (None, s)"
| "Off_sockets R (socket # rest) s =
     (case offCommandForSocket socket of
        Inl err \<Rightarrow> (Some err, s)
      | Inr cmd \<Rightarrow>
          (case SendControl R (cid s) cmd (repeat s) s of
             (Some err, s1) \<Rightarrow> (Some err, s1)
           | (None, s1) \<Rightarrow> Off_sockets R rest s1))"

definition Off ::
  "('w, 'm) collaborators \<Rightarrow> nat list \<Rightarrow> ('w, 'm) mihome \<Rightarrow> error option \<times> ('w, 'm) mihome" where
  "Off R sockets s =
     (if length sockets = 0 then SendControl R (cid s) OOK_OFF_ALL (repeat s) s
      else Off_sockets R sockets s)"

subsection \<open>Receive\<close>

definition emitMessage ::
  "('w, 'm) collaborators \<Rightarrow> 'm \<Rightarrow> error option \<Rightarrow> ('w, 'm) mihome \<Rightarrow> ('w, 'm) mihome" where
  "emitMessage R m r s =
     s\<lparr>trace := trace s @ [Emit \<lparr>ts = Now R (world s), message = m, reason = r\<rparr>]\<rparr>"

text \<open>
  The part of \<open>Receive\<close> before the loop: the mode check, the switch into FSK mode and
  the switch into RX mode (or the FIFO clear when the transceiver is in RX mode already).
\<close>

definition receive_prepare ::
  "('w, 'm) collaborators \<Rightarrow> MiHomeMode \<Rightarrow> ('w, 'm) mihome \<Rightarrow> error option \<times> ('w, 'm) mihome" where
  "receive_prepare R md s =
     (if md \<noteq> MIHOME_MODE_MONITOR then (Some ErrNotImplemented, s)
      else
        (case (if Modulation R (world s) \<noteq> RFM_MODULATION_FSK \<or> mode s \<noteq> MIHOME_MODE_MONITOR
               then (case setFSKMode R s of
                       (Some err, s1) \<Rightarrow> (Some err, s1)
                     | (None, s1) \<Rightarrow> (None, s1\<lparr>mode := MIHOME_MODE_MONITOR\<rparr>))
               else (None, s)) of
           (Some err, s1) \<Rightarrow> (Some err, s1)
         | (None, s1) \<Rightarrow>
             if Mode R (world s1) \<noteq> RFM_MODE_RX then radio_call R (SetMode RFM_MODE_RX) s1
             else radio_call R ClearFIFO s1))"

text \<open>
  What the loop does with data that is not \<open>nil\<close>: RX light on, decode, emit and clear
  the FIFO inside \<open>message != nil\<close>, RX light off. The errors of \<open>SetLED\<close> are
  dropped, as in the source.
\<close>

definition receive_data ::
  "('w, 'm) collaborators \<Rightarrow> byte list \<Rightarrow> ('w, 'm) mihome \<Rightarrow> ('w, 'm) mihome" where
  "receive_data R data s =
     (let s1 = snd (SetLED LED_RX GPIO_HIGH s);
          s2 = (case Decode R data of
                  (None, r) \<Rightarrow> s1
                | (Some m, r) \<Rightarrow>
                    (let s1a = emitMessage R m r s1 in
                     case r of
                       None \<Rightarrow> s1a
                     | Some e \<Rightarrow>
                         (case radio_call R ClearFIFO s1a of
                            (None, s1b) \<Rightarrow> s1b
                          | (Some err, s1b) \<Rightarrow> s1b\<lparr>trace := trace s1b @ [LogError err]\<rparr>)))
      in snd (SetLED LED_RX GPIO_LOW s2))"

definition read_payload ::
  "('w, 'm) collaborators \<Rightarrow> ('w, 'm) mihome \<Rightarrow> (error + byte list option) \<times> ('w, 'm) mihome" where
  "read_payload R s =
     (case ReadPayload R (world s) of
        (res, w') \<Rightarrow> (res, s\<lparr>world := w', trace := trace s @ [Read]\<rparr>))"

text \<open>
  The loop \<open>FOR_LOOP\<close>. It runs until the context is done or a read fails, which may be
  never; the first argument bounds the number of rounds, and \<open>None\<close> says that the
  bound was reached before the loop ended.
\<close>

fun receive_loop ::
  "('w, 'm) collaborators \<Rightarrow> nat \<Rightarrow> ('w, 'm) mihome \<Rightarrow> (error option \<times> ('w, 'm) mihome) option" where
  "receive_loop R 0 s = None"
| "receive_loop R (Suc n) s =
     (if Done R (world s) then Some (None, s)
      else
        (case read_payload R s of
           (Inl err, s1) \<Rightarrow> Some (Some err, s1)
         | (Inr None, s1) \<Rightarrow> receive_loop R n s1
         | (Inr (Some data), s1) \<Rightarrow> receive_loop R n (receive_data R data s1)))"

definition Receive ::
  "('w, 'm) collaborators \<Rightarrow> nat \<Rightarrow> MiHomeMode \<Rightarrow> ('w, 'm) mihome
     \<Rightarrow> (error option \<times> ('w, 'm) mihome) option" where
  "Receive R n md s =
     (case receive_prepare R md s of
        (Some err, s1) \<Rightarrow> Some (Some err, s1)
      | (None, s1) \<Rightarrow> receive_loop R n s1)"

subsection \<open>Reading a trace\<close>

text \<open>
  \<open>issued s s'\<close> is what was added to the trace between the states \<open>s\<close> and
  \<open>s'\<close>; \<open>radio_calls\<close>, \<open>events\<close> and \<open>reads\<close> pick the calls on the
  transceiver, the published events and the payload reads out of a trace.
\<close>

definition issued :: "('w, 'm) mihome \<Rightarrow> ('w, 'm) mihome \<Rightarrow> 'm effect list" where
  "issued s s' = drop (length (trace s)) (trace s')"

fun radio_calls :: "'m effect list \<Rightarrow> call list" where
  "radio_calls [] = []"
| "radio_calls (Radio c # es) = c # radio_calls es"
| "radio_calls (e # es) = radio_calls es"

fun events :: "'m effect list \<Rightarrow> 'm monitor_rx_event list" where
  "events [] = []"
| "events (Emit ev # es) = ev # events es"
| "events (e # es) = events es"

fun reads :: "'m effect list \<Rightarrow> nat" where
  "reads [] = 0"
| "reads (Read # es) = Suc (reads es)"
| "reads (e # es) = reads es"

text \<open>The world after a run of calls on the transceiver, whatever they return.\<close>

definition world_after :: "('w, 'm) collaborators \<Rightarrow> call list \<Rightarrow> 'w \<Rightarrow> 'w" where
  "world_after R cs w = fold (\<lambda>c v. snd (radio R c v)) cs w"

text \<open>The GPIO calls of \<open>SetLED\<close> for a pin that may be absent.\<close>

definition led_effects :: "GPIOPin \<Rightarrow> GPIOState \<Rightarrow> 'm effect list" where
  "led_effects pin state =
     (if pin = GPIO_PIN_NONE then [] else [SetPinMode pin, WritePin pin state])"

text \<open>
  \<open>restarts seq cs\<close>: the calls \<open>cs\<close> begin the sequence \<open>seq\<close> at its first
  step and follow it, either to the call where \<open>cs\<close> ends or through the whole of
  \<open>seq\<close>.
\<close>

definition restarts :: "call list \<Rightarrow> call list \<Rightarrow> bool" where
  "restarts seq cs \<longleftrightarrow> cs \<noteq> [] \<and> take (length seq) cs = take (length cs) seq"

subsection \<open>A scripted transceiver for concrete runs\<close>

text \<open>
  Concrete collaborators, used where a statement is evaluated on a concrete run. The
  transceiver remembers the modulation and the mode it was last set to. A clock counts the
  calls and the reads; a call fails when the list of failures names the clock value at
  which it is made, and a call that fails changes nothing else. The reads answer from a
  script of frames; the context is done once the frames are used up. The decoder takes
  the first byte as the message (0: no message) and the second byte, when there is one,
  as the number of a decode failure.
\<close>

record sim_world =
  sim_modulation :: RFMModulation
  sim_mode :: RFMMode
  sim_failures :: "(nat \<times> error) list"
  sim_frames :: "(error + byte list option) list"
  sim_clock :: nat

definition sim_apply :: "call \<Rightarrow> sim_world \<Rightarrow> sim_world" where
  "sim_apply c w =
     (case c of
        SetMode m \<Rightarrow> w\<lparr>sim_mode := m\<rparr>
      | SetModulation m \<Rightarrow> w\<lparr>sim_modulation := m\<rparr>
      | _ \<Rightarrow> w)"

definition sim_radio :: "call \<Rightarrow> sim_world \<Rightarrow> error option \<times> sim_world" where
  "sim_radio c w =
     (case map_of (sim_failures w) (sim_clock w) of
        None \<Rightarrow> (None, sim_apply c (w\<lparr>sim_clock := Suc (sim_clock w)\<rparr>))
      | Some e \<Rightarrow> (Some e, w\<lparr>sim_clock := Suc (sim_clock w)\<rparr>))"

definition sim_ReadPayload :: "sim_world \<Rightarrow> (error + byte list option) \<times> sim_world" where
  "sim_ReadPayload w =
     (case sim_frames w of
        [] \<Rightarrow> (Inr None, w)
      | f # fs \<Rightarrow> (f, w\<lparr>sim_frames := fs, sim_clock := Suc (sim_clock w)\<rparr>))"

definition sim_Decode :: "byte list \<Rightarrow> nat option \<times> error option" where
  "sim_Decode data =
     (case data of
        [] \<Rightarrow> (None, Some (ErrDecode 0))
      | [x] \<Rightarrow> (if x = 0 then (None, None) else (Some (unat x), None))
      | x # y # rest \<Rightarrow>
          (if x = 0 then (None, Some (ErrDecode (unat y)))
           else (Some (unat x), Some (ErrDecode (unat y)))))"

definition sim :: "(sim_world, nat) collaborators" where
  "sim = \<lparr> Modulation = sim_modulation,
           Mode = sim_mode,
           radio = sim_radio,
           ReadPayload = sim_ReadPayload,
           Decode = sim_Decode,
           Done = (\<lambda>w. sim_frames w = []),
           Now = sim_clock \<rparr>"

text \<open>
  A world with the given failures and frames and a transceiver that was never
  configured, the configuration with every option at its default and three pins wired,
  and the driver that \<open>Open\<close> makes of them (\<open>fresh_driver_is_Open\<close>).
\<close>

definition sim_start ::
  "(nat \<times> error) list \<Rightarrow> (error + byte list option) list \<Rightarrow> sim_world" where
  "sim_start failures frames =
     \<lparr> sim_modulation = RFM_MODULATION_OTHER 0,
       sim_mode = RFM_MODE_OTHER 0,
       sim_failures = failures,
       sim_frames = frames,
       sim_clock = 0 \<rparr>"

definition default_config :: MiHome where
  "default_config =
     \<lparr> GPIO_nil = False, Radio_nil = False, OpenThings_nil = False,
       PinReset = GPIO_PIN 25, PinLED1 = GPIO_PIN 27, PinLED2 = GPIO_PIN 22,
       CID = [], Repeat = 0 \<rparr>"

definition fresh_driver ::
  "(nat \<times> error) list \<Rightarrow> (error + byte list option) list \<Rightarrow> (sim_world, nat) mihome" where
  "fresh_driver failures frames =
     \<lparr> world = sim_start failures frames,
       reset = GPIO_PIN 25,
       cid = Some [0x06, 0xC6, 0xC6],
       repeat = 8,
       led1 = GPIO_PIN 27,
       led2 = GPIO_PIN 22,
       ledrx = GPIO_PIN 27,
       ledtx = GPIO_PIN 22,
       mode = MIHOME_MODE_NONE,
       trace = [] \<rparr>"

subsection \<open>Concrete runs\<close>

text \<open>
  The state a run of \<open>Receive\<close> ends in (the given state when the bound on the rounds
  was reached first), and the states of the runs that the statements below are evaluated
  on: two sends in a row on the driver that \<open>Open\<close> makes, and two receives in a row
  where the first reads one frame and one empty poll before the context is done.
\<close>

definition state_of ::
  "(error option \<times> ('w, 'm) mihome) option \<Rightarrow> ('w, 'm) mihome \<Rightarrow> ('w, 'm) mihome" where
  "state_of res s = (case res of None \<Rightarrow> s | Some (e, s') \<Rightarrow> s')"

definition two_sends_1 :: "(sim_world, nat) mihome" where
  "two_sends_1 = snd (SendControl sim (Some [0x06, 0xC6, 0xC6]) OOK_ON_1 8 (fresh_driver [] []))"

definition two_sends_2 :: "(sim_world, nat) mihome" where
  "two_sends_2 = snd (SendControl sim (Some [0x06, 0xC6, 0xC6]) OOK_OFF_1 8 two_sends_1)"

definition two_receives_0 :: "(sim_world, nat) mihome" where
  "two_receives_0 = fresh_driver [] [Inr (Some [7]), Inr None]"

definition two_receives_1 :: "(sim_world, nat) mihome" where
  "two_receives_1 = state_of (Receive sim 3 MIHOME_MODE_MONITOR two_receives_0) two_receives_0"

definition two_receives_2 :: "(sim_world, nat) mihome" where
  "two_receives_2 = state_of (Receive sim 1 MIHOME_MODE_MONITOR two_receives_1) two_receives_1"

text \<open>
  A send whose configuration fails at its third call, and the send after it; a receive
  whose configuration fails at its second call, and the receive after it.
\<close>

definition failed_send_0 :: "(sim_world, nat) mihome" where
  "failed_send_0 = fresh_driver [(2, ErrTransceiver 5)] []"

definition failed_send_1 :: "(sim_world, nat) mihome" where
  "failed_send_1 = snd (setOOKMode sim failed_send_0)"

definition failed_send_2 :: "(sim_world, nat) mihome" where
  "failed_send_2 = snd (SendControl sim (Some [0x06, 0xC6, 0xC6]) OOK_ON_2 8 failed_send_1)"

definition failed_receive_0 :: "(sim_world, nat) mihome" where
  "failed_receive_0 = fresh_driver [(1, ErrTransceiver 6)] []"

definition failed_receive_1 :: "(sim_world, nat) mihome" where
  "failed_receive_1 = snd (setFSKMode sim failed_receive_0)"

definition failed_receive_2 :: "(sim_world, nat) mihome" where
  "failed_receive_2 = state_of (Receive sim 1 MIHOME_MODE_MONITOR failed_receive_1) failed_receive_1"

text \<open>
  A run of four calls on the driver that \<open>Open\<close> makes: a send that configures the
  transceiver; a receive whose configuration fails at its last call (clock 39); a send
  whose configuration fails at its third call (clock 42); one more send.
\<close>

definition stale_0 :: "(sim_world, nat) mihome" where
  "stale_0 = fresh_driver [(39, ErrTransceiver 1), (42, ErrTransceiver 2)] []"

definition stale_1 :: "(sim_world, nat) mihome" where
  "stale_1 = snd (SendControl sim (Some [0x06, 0xC6, 0xC6]) OOK_ON_1 8 stale_0)"

definition stale_2 :: "(sim_world, nat) mihome" where
  "stale_2 = state_of (Receive sim 1 MIHOME_MODE_MONITOR stale_1) stale_1"

definition stale_3 :: "(sim_world, nat) mihome" where
  "stale_3 = snd (SendControl sim (Some [0x06, 0xC6, 0xC6]) OOK_ON_1 8 stale_2)"

definition stale_4 :: "(sim_world, nat) mihome" where
  "stale_4 = snd (SendControl sim (Some [0x06, 0xC6, 0xC6]) OOK_ON_1 8 stale_3)"

text \<open>
  A receive whose context is done from the start; a receive that reads one frame and then
  meets a read error, with a third frame left unread; a receive whose first read fails.
\<close>

definition cancelled_0 :: "(sim_world, nat) mihome" where
  "cancelled_0 = fresh_driver [] []"

definition cancelled_1 :: "(sim_world, nat) mihome" where
  "cancelled_1 = snd (receive_prepare sim MIHOME_MODE_MONITOR cancelled_0)"

definition read_error_0 :: "(sim_world, nat) mihome" where
  "read_error_0 = fresh_driver [] [Inr (Some [7]), Inl (ErrTransceiver 3), Inr (Some [8])]"

definition read_error_1 :: "(sim_world, nat) mihome" where
  "read_error_1 = snd (receive_prepare sim MIHOME_MODE_MONITOR read_error_0)"

definition read_error_2 :: "(sim_world, nat) mihome" where
  "read_error_2 = receive_data sim [7] (snd (read_payload sim read_error_1))"

definition read_error_3 :: "(sim_world, nat) mihome" where
  "read_error_3 = state_of (Receive sim 5 MIHOME_MODE_MONITOR read_error_0) read_error_0"

definition read_fails_0 :: "(sim_world, nat) mihome" where
  "read_fails_0 = fresh_driver [] [Inl (ErrTransceiver 4), Inr (Some [9])]"

definition read_fails_1 :: "(sim_world, nat) mihome" where
  "read_fails_1 = snd (receive_prepare sim MIHOME_MODE_MONITOR read_fails_0)"

definition read_error_world :: sim_world where
  "read_error_world = \<lparr>sim_modulation = RFM_MODULATION_FSK, sim_mode = RFM_MODE_RX,
     sim_failures = [], sim_frames = [Inr (Some [8])], sim_clock = 26\<rparr>"





section \<open>Properties\<close>

subsection \<open>The codec\<close>

lemma top_bit: "((v::byte) AND 0x80 = 0) = (\<not> bit v 7)"
proof -
  have "(0x80::byte) = 2 ^ 7" by simp
  then show ?thesis by (simp only: and_exp_eq_0_iff_not_bit)
qed

lemma encodeByte_inner_2: "encodeByte_inner 2 0 v =
   (pack_nibbles (nibble_of_bit (bit v 7)) (nibble_of_bit (bit v 6)), push_bit 2 v)"
proof -
  have two: "(2::nat) = Suc (Suc 0)" by simp
  have b6: "bit (push_bit 1 v) 7 = bit v 6" by (subst bit_push_bit_iff) simp
  have pp: "push_bit 1 (push_bit 1 v) = push_bit 2 v" by (simp add: push_bit_eq_mult)
  show ?thesis
    unfolding two encodeByte_inner.simps Let_def top_bit b6 pp
    by (cases "bit v 7"; cases "bit v 6"; simp add: pack_nibbles_def nibble_of_bit_def OOK_ZERO_def OOK_ONE_def)
qed

lemma encodeByte_eq_spec: "encodeByte b = spec_EncodeByte b"
proof -
  have four: "(4::nat) = Suc (Suc (Suc (Suc 0)))" by simp
  have s: "bit (push_bit 2 b) 7 = bit b 5" "bit (push_bit 2 b) 6 = bit b 4"
     "bit (push_bit 2 (push_bit 2 b)) 7 = bit b 3" "bit (push_bit 2 (push_bit 2 b)) 6 = bit b 2"
     "bit (push_bit 2 (push_bit 2 (push_bit 2 b))) 7 = bit b 1" "bit (push_bit 2 (push_bit 2 (push_bit 2 b))) 6 = bit b 0"
    by (simp_all only: bit_push_bit_iff) simp_all
  show ?thesis
    unfolding encodeByte_def four encodeByte_outer.simps encodeByte_inner_2 Let_def prod.case spec_EncodeByte_def s
    by (rule refl)
qed

lemma bit_of_nibble_hi: "bit_of_nibble (drop_bit 4 (pack_nibbles (nibble_of_bit x) (nibble_of_bit y))) = Some x"
  by (cases x; cases y; simp add: pack_nibbles_def nibble_of_bit_def bit_of_nibble_def)

lemma bit_of_nibble_lo: "bit_of_nibble (pack_nibbles (nibble_of_bit x) (nibble_of_bit y) AND 0x0F) = Some y"
  by (cases x; cases y; simp add: pack_nibbles_def nibble_of_bit_def bit_of_nibble_def)

lemma byte_of_bits8:
  "byte_of_bits [bit b 7, bit b 6, bit b 5, bit b 4, bit b 3, bit b 2, bit b 1, bit b 0] = b"
proof -
  have u: "[0..<8] = [0, 1, 2, 3, 4, 5, 6, 7::nat]" by (simp add: upt_rec)
  have "horner_sum of_bool 2 (map (bit b) [0..<8]) = take_bit 8 b"
    by (rule horner_sum_bit_eq_take_bit)
  moreover have "take_bit 8 b = b" using take_bit_length_eq [of b] by simp
  ultimately have "horner_sum of_bool 2 (map (bit b) [0, 1, 2, 3, 4, 5, 6, 7]) = b"
    by (simp only: u)
  then show ?thesis by (simp add: byte_of_bits_def algebra_simps del: bit_0)
qed

lemma decode_bits_enc: "decode_bits (spec_EncodeByte b) =
   Some [bit b 7, bit b 6, bit b 5, bit b 4, bit b 3, bit b 2, bit b 1, bit b 0]"
  by (simp only: spec_EncodeByte_def decode_bits.simps bit_of_nibble_hi bit_of_nibble_lo option.case)

lemma spec_DecodeByte_encodeByte: "spec_DecodeByte (encodeByte b) = Some b"
  by (simp only: encodeByte_eq_spec spec_DecodeByte_def decode_bits_enc option.case byte_of_bits8) simp

lemma length_encodeByte: "length (encodeByte b) = 4"
  by (simp add: encodeByte_eq_spec spec_EncodeByte_def)

lemma length_encode_address: "length (concat (map encodeByte bs)) = 4 * length bs"
  by (induction bs) (simp_all add: length_encodeByte)

lemma encodeCommandPayload_Some:
  "encodeCommandPayload (Some bs) cmd =
     (if length bs = 3
      then Inr (OOK_PREAMBLE @ drop 2 (concat (map encodeByte bs)) @ drop 2 (encodeByte cmd))
      else Inl ErrAppError)"
  by (simp add: encodeCommandPayload_def encodeByteArray_def length_encodeByte
      length_encode_address)

lemma encodeCommandPayload_None: "encodeCommandPayload None cmd = Inl ErrAppError"
  by (simp add: encodeCommandPayload_def encodeByteArray_def length_encodeByte)

subsection \<open>Traces, chains of calls and the two branches of SendControl\<close>

lemma issued_append: "trace s' = trace s @ xs \<Longrightarrow> issued s s' = xs"
  by (simp add: issued_def)

lemma radio_calls_append: "radio_calls (xs @ ys) = radio_calls xs @ radio_calls ys"
  by (induction xs rule: radio_calls.induct) simp_all

lemma radio_calls_map_Radio: "radio_calls (map Radio cs) = cs"
  by (induction cs) simp_all

lemma radio_calls_led: "radio_calls (led_effects pin st) = []"
  by (simp add: led_effects_def)

lemma events_append: "events (xs @ ys) = events xs @ events ys"
  by (induction xs rule: events.induct) simp_all

lemma events_map_Radio: "events (map Radio cs) = []"
  by (induction cs) simp_all

lemma events_led: "events (led_effects pin st) = []"
  by (simp add: led_effects_def)

lemma reads_append: "reads (xs @ ys) = reads xs + reads ys"
  by (induction xs rule: reads.induct) simp_all

lemma world_after_Nil: "world_after R [] w = w"
  by (simp add: world_after_def)

lemma world_after_Cons: "world_after R (c # cs) w = world_after R cs (snd (radio R c w))"
  by (simp add: world_after_def)

lemma world_after_snoc: "world_after R (cs @ [c]) w = snd (radio R c (world_after R cs w))"
  by (simp add: world_after_def)

lemma radio_call_eq:
  "radio_call R c s =
     (fst (radio R c (world s)),
      s\<lparr>world := snd (radio R c (world s)), trace := trace s @ [Radio c]\<rparr>)"
  by (simp add: radio_call_def split: prod.split)

lemma radio_chain_ok:
  "radio_chain R cs s = (None, s') \<Longrightarrow>
     s' = s\<lparr>world := world_after R cs (world s), trace := trace s @ map Radio cs\<rparr>"
proof (induction cs arbitrary: s)
  case Nil
  then show ?case by (simp add: world_after_Nil)
next
  case (Cons c cs)
  from Cons.prems have ok: "fst (radio R c (world s)) = None"
    by (auto simp: radio_call_eq split: option.splits)
  with Cons.prems have "radio_chain R cs
      (s\<lparr>world := snd (radio R c (world s)), trace := trace s @ [Radio c]\<rparr>) = (None, s')"
    by (simp add: radio_call_eq)
  from Cons.IH [OF this] show ?case by (simp add: world_after_Cons)
qed

lemma radio_chain_err:
  "radio_chain R cs s = (Some e, s') \<Longrightarrow>
     \<exists>k<length cs.
        s' = s\<lparr>world := world_after R (take (Suc k) cs) (world s),
               trace := trace s @ map Radio (take (Suc k) cs)\<rparr> \<and>
        fst (radio R (cs ! k) (world_after R (take k cs) (world s))) = Some e"
proof (induction cs arbitrary: s)
  case Nil
  then show ?case by simp
next
  case (Cons c cs)
  show ?case
  proof (cases "fst (radio R c (world s))")
    case None
    with Cons.prems have "radio_chain R cs
        (s\<lparr>world := snd (radio R c (world s)), trace := trace s @ [Radio c]\<rparr>) = (Some e, s')"
      by (simp add: radio_call_eq)
    from Cons.IH [OF this] obtain k where k: "k < length cs"
      "s' = s\<lparr>world := world_after R (take (Suc k) cs) (snd (radio R c (world s))),
               trace := trace s @ Radio c # map Radio (take (Suc k) cs)\<rparr>"
      "fst (radio R (cs ! k) (world_after R (take k cs) (snd (radio R c (world s))))) = Some e"
      by auto
    then have "Suc k < length (c # cs) \<and>
        s' = s\<lparr>world := world_after R (take (Suc (Suc k)) (c # cs)) (world s),
               trace := trace s @ map Radio (take (Suc (Suc k)) (c # cs))\<rparr> \<and>
        fst (radio R ((c # cs) ! Suc k) (world_after R (take (Suc k) (c # cs)) (world s))) = Some e"
      by (simp add: world_after_Cons)
    then show ?thesis by blast
  next
    case (Some e')
    with Cons.prems have "e' = e" "s' = s\<lparr>world := snd (radio R c (world s)), trace := trace s @ [Radio c]\<rparr>"
      by (simp_all add: radio_call_eq)
    with Some have "0 < length (c # cs) \<and>
        s' = s\<lparr>world := world_after R (take (Suc 0) (c # cs)) (world s),
               trace := trace s @ map Radio (take (Suc 0) (c # cs))\<rparr> \<and>
        fst (radio R ((c # cs) ! 0) (world_after R (take 0 (c # cs)) (world s))) = Some e"
      by (simp add: world_after_Cons world_after_Nil)
    then show ?thesis by blast
  qed
qed

lemma SetLED_RX: "SetLED LED_RX st s = (None, s\<lparr>trace := trace s @ led_effects (ledrx s) st\<rparr>)"
  by (simp add: SetLED_def SetLED_single_def LED_ALL_def LED_1_def LED_2_def LED_RX_def
      led_effects_def gpio_write_def)

lemma SetLED_TX: "SetLED LED_TX st s = (None, s\<lparr>trace := trace s @ led_effects (ledtx s) st\<rparr>)"
  by (simp add: SetLED_def SetLED_single_def LED_ALL_def LED_1_def LED_2_def LED_RX_def LED_TX_def
      led_effects_def gpio_write_def)

lemma SendControl_reconfigure:
  assumes "rpt \<noteq> 0" "encodeCommandPayload c cmd = Inr p"
    and "Modulation R (world s) \<noteq> RFM_MODULATION_OOK \<or> mode s \<noteq> MIHOME_MODE_CONTROL"
  shows "SendControl R c cmd rpt s =
     (case radio_chain R ook_calls s of
        (Some err, s1) \<Rightarrow> (Some err, s1)
      | (None, s1) \<Rightarrow> (None, s1\<lparr>mode := MIHOME_MODE_CONTROL\<rparr>))"
proof -
  from assms(2) obtain bs where "c = Some bs"
    by (cases c) (simp_all add: encodeCommandPayload_def encodeByteArray_def Let_def split: if_splits)
  with assms show ?thesis by (simp add: SendControl_def setOOKMode_def)
qed

lemma SendControl_transmit:
  assumes "rpt \<noteq> 0" "encodeCommandPayload c cmd = Inr p"
    and "Modulation R (world s) = RFM_MODULATION_OOK" "mode s = MIHOME_MODE_CONTROL"
  shows "SendControl R c cmd rpt s =
     (case radio_call R (SetMode RFM_MODE_TX) s of
        (Some err, s1) \<Rightarrow> (Some err, s1)
      | (None, s1) \<Rightarrow>
          (case radio_call R (SetSequencer True) s1 of
             (Some err, s2) \<Rightarrow> (Some err, s2)
           | (None, s2) \<Rightarrow>
               (case radio_call R (WritePayload p rpt)
                       (s2\<lparr>trace := trace s2 @ led_effects (ledtx s2) GPIO_HIGH\<rparr>) of
                  (err, s4) \<Rightarrow> (err, s4\<lparr>trace := trace s4 @ led_effects (ledtx s4) GPIO_LOW\<rparr>))))"
proof -
  from assms(2) obtain bs where "c = Some bs"
    by (cases c) (simp_all add: encodeCommandPayload_def encodeByteArray_def Let_def split: if_splits)
  with assms show ?thesis
    by (simp add: SendControl_def SetLED_TX Let_def split: prod.splits option.splits)
qed

lemma SendControl_bad_parameter:
  "rpt = 0 \<or> c = None \<Longrightarrow> SendControl R c cmd rpt s = (Some ErrBadParameter, s)"
  by (simp add: SendControl_def)

lemma SendControl_reconfigure_ok:
  assumes "Modulation R (world s) \<noteq> RFM_MODULATION_OOK \<or> mode s \<noteq> MIHOME_MODE_CONTROL"
    and "SendControl R c cmd rpt s = (None, s1)"
  shows "s1 = s\<lparr>world := world_after R ook_calls (world s),
                 mode := MIHOME_MODE_CONTROL,
                 trace := trace s @ map Radio ook_calls\<rparr>"
proof -
  from assms(2) have rpt: "rpt \<noteq> 0" and "c \<noteq> None"
    by (auto simp: SendControl_def split: if_splits)
  with assms(2) obtain p where p: "encodeCommandPayload c cmd = Inr p"
    by (cases "encodeCommandPayload c cmd") (simp_all add: SendControl_def)
  from assms(2) have "(case radio_chain R ook_calls s of
        (Some err, s1) \<Rightarrow> (Some err, s1)
      | (None, s1) \<Rightarrow> (None, s1\<lparr>mode := MIHOME_MODE_CONTROL\<rparr>)) = (None, s1)"
    by (simp only: SendControl_reconfigure [OF rpt p assms(1)])
  then obtain s0 where "radio_chain R ook_calls s = (None, s0)" "s1 = s0\<lparr>mode := MIHOME_MODE_CONTROL\<rparr>"
    by (auto split: prod.splits option.splits)
  with radio_chain_ok [of R ook_calls s s0] show ?thesis by simp
qed

lemma SendControl_transmit_ok:
  assumes "Modulation R (world s) = RFM_MODULATION_OOK" "mode s = MIHOME_MODE_CONTROL"
    and "SendControl R c cmd rpt s = (None, s2)"
  shows "\<exists>p. encodeCommandPayload c cmd = Inr p \<and>
     s2 = s\<lparr>world := world_after R [SetMode RFM_MODE_TX, SetSequencer True, WritePayload p rpt] (world s),
            trace := trace s @ [Radio (SetMode RFM_MODE_TX), Radio (SetSequencer True)] @
                     led_effects (ledtx s) GPIO_HIGH @ [Radio (WritePayload p rpt)] @
                     led_effects (ledtx s) GPIO_LOW\<rparr>"
proof -
  from assms(3) have rpt: "rpt \<noteq> 0" and "c \<noteq> None"
    by (auto simp: SendControl_def split: if_splits)
  with assms(3) obtain p where p: "encodeCommandPayload c cmd = Inr p"
    by (cases "encodeCommandPayload c cmd") (simp_all add: SendControl_def)
  from assms(3) have "s2 = s\<lparr>world := world_after R [SetMode RFM_MODE_TX, SetSequencer True, WritePayload p rpt] (world s),
            trace := trace s @ [Radio (SetMode RFM_MODE_TX), Radio (SetSequencer True)] @
                     led_effects (ledtx s) GPIO_HIGH @ [Radio (WritePayload p rpt)] @
                     led_effects (ledtx s) GPIO_LOW\<rparr>"
    unfolding SendControl_transmit [OF rpt p assms(1,2)]
    by (auto simp: radio_call_eq world_after_Cons world_after_Nil split: option.splits)
  with p show ?thesis by blast
qed

lemma SendControl_ok_mode:
  "SendControl R c cmd rpt s = (None, s1) \<Longrightarrow> mode s1 = MIHOME_MODE_CONTROL"
proof (cases "Modulation R (world s) \<noteq> RFM_MODULATION_OOK \<or> mode s \<noteq> MIHOME_MODE_CONTROL")
  case True
  assume "SendControl R c cmd rpt s = (None, s1)"
  from SendControl_reconfigure_ok [OF True this] show ?thesis by simp
next
  case False
  assume "SendControl R c cmd rpt s = (None, s1)"
  with False SendControl_transmit_ok [of R s c cmd rpt s1] show ?thesis by auto
qed

lemma receive_data_eq:
  "receive_data R data s =
     (case Decode R data of
        (None, r) \<Rightarrow>
          s\<lparr>trace := trace s @ led_effects (ledrx s) GPIO_HIGH @ led_effects (ledrx s) GPIO_LOW\<rparr>
      | (Some m, None) \<Rightarrow>
          s\<lparr>trace := trace s @ led_effects (ledrx s) GPIO_HIGH @
                     [Emit \<lparr>ts = Now R (world s), message = m, reason = None\<rparr>] @
                     led_effects (ledrx s) GPIO_LOW\<rparr>
      | (Some m, Some e) \<Rightarrow>
          s\<lparr>world := snd (radio R ClearFIFO (world s)),
            trace := trace s @ led_effects (ledrx s) GPIO_HIGH @
                     [Emit \<lparr>ts = Now R (world s), message = m, reason = Some e\<rparr>, Radio ClearFIFO] @
                     (case fst (radio R ClearFIFO (world s)) of
                        None \<Rightarrow> [] | Some err \<Rightarrow> [LogError err]) @
                     led_effects (ledrx s) GPIO_LOW\<rparr>)"
  by (simp add: receive_data_def SetLED_RX emitMessage_def radio_call_eq Let_def
      split: prod.splits option.splits)

lemma receive_data_frame:
  "\<exists>xs. trace (receive_data R data s) = trace s @ xs \<and>
        set (radio_calls xs) \<subseteq> {ClearFIFO} \<and> reads xs = 0"
  by (simp add: receive_data_eq radio_calls_append radio_calls_led reads_append led_effects_def
      split: prod.splits option.splits)

lemma receive_data_fields:
  "mode (receive_data R data s) = mode s"
  "ledrx (receive_data R data s) = ledrx s"
  by (simp_all add: receive_data_eq split: prod.splits option.splits)

lemma read_payload_eq:
  "read_payload R s =
     (fst (ReadPayload R (world s)),
      s\<lparr>world := snd (ReadPayload R (world s)), trace := trace s @ [Read]\<rparr>)"
  by (simp add: read_payload_def split: prod.split)

lemma receive_loop_frame:
  "receive_loop R n s = Some (r, s') \<Longrightarrow>
     mode s' = mode s \<and>
     (\<exists>xs. trace s' = trace s @ xs \<and> set (radio_calls xs) \<subseteq> {ClearFIFO})"
proof (induction n arbitrary: s)
  case 0
  then show ?case by simp
next
  case (Suc n)
  show ?case
  proof (cases "Done R (world s)")
    case True
    with Suc.prems show ?thesis by simp
  next
    case False
    let ?s1 = "s\<lparr>world := snd (ReadPayload R (world s)), trace := trace s @ [Read]\<rparr>"
    show ?thesis
    proof (cases "fst (ReadPayload R (world s))")
      case (Inl err)
      with False Suc.prems have "s' = ?s1" by (simp add: read_payload_eq)
      then have "mode s' = mode s \<and> trace s' = trace s @ [Read] \<and>
          set (radio_calls [Read :: 'b effect]) \<subseteq> {ClearFIFO}"
        by simp
      then show ?thesis by blast
    next
      case (Inr d)
      show ?thesis
      proof (cases d)
        case None
        with Inr False Suc.prems have "receive_loop R n ?s1 = Some (r, s')"
          by (simp add: read_payload_eq)
        from Suc.IH [OF this] show ?thesis by auto
      next
        case (Some data)
        with Inr False Suc.prems have "receive_loop R n (receive_data R data ?s1) = Some (r, s')"
          by (simp add: read_payload_eq)
        from Suc.IH [OF this] obtain xs where xs: "mode s' = mode (receive_data R data ?s1)"
          "trace s' = trace (receive_data R data ?s1) @ xs" "set (radio_calls xs) \<subseteq> {ClearFIFO}"
          by auto
        from receive_data_frame [of R data ?s1] obtain ys where
          ys: "trace (receive_data R data ?s1) = trace ?s1 @ ys" "set (radio_calls ys) \<subseteq> {ClearFIFO}"
          by auto
        from xs ys have "trace s' = trace s @ (Read # ys @ xs) \<and>
            set (radio_calls (Read # ys @ xs)) \<subseteq> {ClearFIFO}"
          by (simp add: radio_calls_append)
        with xs(1) show ?thesis by (simp add: receive_data_fields)
      qed
    qed
  qed
qed

lemma receive_prepare_ok:
  assumes "receive_prepare R md s = (None, s1)"
  shows "md = MIHOME_MODE_MONITOR \<and> mode s1 = MIHOME_MODE_MONITOR \<and>
     (\<exists>c. c \<in> {SetMode RFM_MODE_RX, ClearFIFO} \<and>
        trace s1 = trace s @
          (if Modulation R (world s) \<noteq> RFM_MODULATION_FSK \<or> mode s \<noteq> MIHOME_MODE_MONITOR
           then map Radio fsk_calls else []) @ [Radio c])"
proof (cases "Modulation R (world s) \<noteq> RFM_MODULATION_FSK \<or> mode s \<noteq> MIHOME_MODE_MONITOR")
  case True
  from assms have md: "md = MIHOME_MODE_MONITOR"
    by (auto simp: receive_prepare_def split: if_splits)
  from assms md True obtain s0 where s0: "radio_chain R fsk_calls s = (None, s0)"
    by (cases "radio_chain R fsk_calls s")
       (auto simp: receive_prepare_def setFSKMode_def split: if_splits option.splits)
  note radio_chain_ok [OF s0]
  with assms md True s0 show ?thesis
    by (auto simp: receive_prepare_def setFSKMode_def radio_call_eq split: if_splits)
next
  case False
  with assms show ?thesis
    by (auto simp: receive_prepare_def radio_call_eq split: if_splits)
qed

subsection \<open>A call after a failed configuration\<close>

lemma restarts_take: "j < length seq \<Longrightarrow> restarts seq (take (Suc j) seq)"
  by (cases seq) (simp_all add: restarts_def min_def)

lemma restarts_append: "seq \<noteq> [] \<Longrightarrow> restarts seq (seq @ rest)"
  by (simp add: restarts_def)

lemma radio_chain_restarts:
  assumes "radio_chain R seq s = (r, s')" "seq \<noteq> []"
  shows "\<exists>xs. trace s' = trace s @ map Radio xs \<and> mode s' = mode s \<and> restarts seq xs \<and>
              (r = None \<longrightarrow> xs = seq)"
proof (cases r)
  case None
  with assms radio_chain_ok [of R seq s s']
  have "trace s' = trace s @ map Radio seq \<and> mode s' = mode s \<and> restarts seq seq"
    using restarts_append [of seq "[]"] by simp
  with None show ?thesis by blast
next
  case (Some e)
  with assms radio_chain_err [of R seq s e s'] obtain k where k: "k < length seq"
    "s' = s\<lparr>world := world_after R (take (Suc k) seq) (world s),
           trace := trace s @ map Radio (take (Suc k) seq)\<rparr>"
    by blast
  then have "trace s' = trace s @ map Radio (take (Suc k) seq) \<and> mode s' = mode s \<and>
      restarts seq (take (Suc k) seq)"
    by (simp add: restarts_take)
  with Some show ?thesis by blast
qed

lemma ook_calls_not_Nil: "ook_calls \<noteq> []"
  by (simp add: ook_calls_def)

lemma fsk_calls_not_Nil: "fsk_calls \<noteq> []"
  by (simp add: fsk_calls_def)

lemma SendControl_retry:
  assumes "rpt \<noteq> 0" "encodeCommandPayload c cmd = Inr p"
    and "Modulation R (world s) \<noteq> RFM_MODULATION_OOK \<or> mode s \<noteq> MIHOME_MODE_CONTROL"
    and "SendControl R c cmd rpt s = (r, s')"
  shows "restarts ook_calls (radio_calls (issued s s'))"
proof -
  obtain r0 s0 where c: "radio_chain R ook_calls s = (r0, s0)"
    by (cases "radio_chain R ook_calls s")
  from radio_chain_restarts [OF c ook_calls_not_Nil] obtain xs where
    xs: "trace s0 = trace s @ map Radio xs" "restarts ook_calls xs"
    by blast
  from assms(4) c have "trace s' = trace s0"
    unfolding SendControl_reconfigure [OF assms(1,2,3)]
    by (auto split: option.splits)
  with xs have "trace s' = trace s @ map Radio xs" by simp
  from issued_append [OF this] xs(2) show ?thesis by (simp add: radio_calls_map_Radio)
qed

lemma Receive_retry:
  assumes "Modulation R (world s) \<noteq> RFM_MODULATION_FSK \<or> mode s \<noteq> MIHOME_MODE_MONITOR"
    and "Receive R n MIHOME_MODE_MONITOR s = Some (r, s')"
  shows "restarts fsk_calls (radio_calls (issued s s'))"
proof -
  obtain r0 s0 where c: "radio_chain R fsk_calls s = (r0, s0)"
    by (cases "radio_chain R fsk_calls s")
  from radio_chain_restarts [OF c fsk_calls_not_Nil] obtain xs where
    xs: "trace s0 = trace s @ map Radio xs" "restarts fsk_calls xs" "r0 = None \<longrightarrow> xs = fsk_calls"
    by blast
  show ?thesis
  proof (cases r0)
    case (Some e)
    with assms c have "s' = s0"
      by (simp add: Receive_def receive_prepare_def setFSKMode_def)
    with xs have "trace s' = trace s @ map Radio xs" by simp
    from issued_append [OF this] xs(2) show ?thesis by (simp add: radio_calls_map_Radio)
  next
    case None
    with xs have t0: "trace s0 = trace s @ map Radio fsk_calls" by simp
    define s1 where "s1 = s0\<lparr>mode := MIHOME_MODE_MONITOR\<rparr>"
    define c1 where "c1 = (if Mode R (world s1) \<noteq> RFM_MODE_RX then SetMode RFM_MODE_RX else ClearFIFO)"
    from assms(1) c None have prep: "receive_prepare R MIHOME_MODE_MONITOR s = radio_call R c1 s1"
      by (simp add: receive_prepare_def setFSKMode_def s1_def c1_def)
    obtain e2 s2 where rc: "radio_call R c1 s1 = (e2, s2)" by (cases "radio_call R c1 s1")
    then have t2: "trace s2 = trace s @ map Radio fsk_calls @ [Radio c1]"
      using t0 by (auto simp: radio_call_eq s1_def)
    have "\<exists>ys. trace s' = trace s2 @ ys"
    proof (cases e2)
      case None
      with assms(2) prep rc have "receive_loop R n s2 = Some (r, s')" by (simp add: Receive_def)
      from receive_loop_frame [OF this] show ?thesis by blast
    next
      case (Some err)
      with assms(2) prep rc have "s' = s2" by (simp add: Receive_def)
      then show ?thesis by simp
    qed
    then obtain ys where "trace s' = trace s2 @ ys" by blast
    with t2 have "trace s' = trace s @ (map Radio fsk_calls @ Radio c1 # ys)" by simp
    from issued_append [OF this]
    have "radio_calls (issued s s') = fsk_calls @ (c1 # radio_calls ys)"
      by (simp add: radio_calls_append radio_calls_map_Radio)
    with restarts_append [OF fsk_calls_not_Nil] show ?thesis by simp
  qed
qed

subsection \<open>Evaluating concrete runs\<close>

lemmas sim_simps = sim_def sim_radio_def sim_apply_def sim_ReadPayload_def sim_Decode_def
  sim_start_def fresh_driver_def

lemmas driver_simps = SendControl_def setOOKMode_def setFSKMode_def radio_call_def
  ook_calls_def fsk_calls_def encodeCommandPayload_Some SetLED_TX SetLED_RX led_effects_def
  receive_prepare_def Receive_def read_payload_def receive_data_def emitMessage_def
  On_def Off_def onCommandForSocket_def offCommandForSocket_def

lemma issued_trans:
  "trace s1 = trace s @ xs \<Longrightarrow> trace s2 = trace s1 @ ys \<Longrightarrow> issued s s2 = xs @ ys"
  by (simp add: issued_def)

lemma fresh_driver_is_Open:
  "Open default_config (sim_start rs fs) = Inr (fresh_driver rs fs)"
  by (simp add: Open_def default_config_def fresh_driver_def CID_DEFAULT_def REPEAT_DEFAULT_def
      decodeHexString_def fromHexChar_def)

lemma two_sends_1_eq:
  "two_sends_1 = (fresh_driver [] [])
        \<lparr>world := \<lparr>sim_modulation = RFM_MODULATION_OOK, sim_mode = RFM_MODE_STDBY,
                   sim_failures = [], sim_frames = [], sim_clock = 17\<rparr>,
         mode := MIHOME_MODE_CONTROL,
         trace := map Radio ook_calls\<rparr>"
  by (simp add: two_sends_1_def OOK_ON_1_def sim_simps driver_simps)

lemma two_sends_1_ok:
  "SendControl sim (Some [0x06, 0xC6, 0xC6]) OOK_ON_1 8 (fresh_driver [] []) = (None, two_sends_1)"
  by (simp add: two_sends_1_def OOK_ON_1_def sim_simps driver_simps)

lemma two_sends_2_ok:
  "SendControl sim (Some [0x06, 0xC6, 0xC6]) OOK_OFF_1 8 two_sends_1 = (None, two_sends_2)"
  by (simp add: two_sends_2_def two_sends_1_eq sim_simps driver_simps)

lemma two_receives_1_ok:
  "Receive sim 3 MIHOME_MODE_MONITOR two_receives_0 = Some (None, two_receives_1)"
  by (simp add: two_receives_1_def two_receives_0_def state_of_def numeral_3_eq_3 sim_simps driver_simps)

lemma two_receives_1_eq:
  "two_receives_1 = (fresh_driver [] [])
        \<lparr>world := \<lparr>sim_modulation = RFM_MODULATION_FSK, sim_mode = RFM_MODE_RX,
                   sim_failures = [], sim_frames = [], sim_clock = 26\<rparr>,
         mode := MIHOME_MODE_MONITOR,
         trace := map Radio fsk_calls @
           [Radio (SetMode RFM_MODE_RX), Read,
            SetPinMode (GPIO_PIN 27), WritePin (GPIO_PIN 27) GPIO_HIGH,
            Emit \<lparr>ts = 25, message = 7, reason = None\<rparr>,
            SetPinMode (GPIO_PIN 27), WritePin (GPIO_PIN 27) GPIO_LOW,
            Read]\<rparr>"
  by (simp add: two_receives_1_def two_receives_0_def state_of_def numeral_3_eq_3 sim_simps driver_simps)

lemma two_receives_2_ok:
  "Receive sim 1 MIHOME_MODE_MONITOR two_receives_1 = Some (None, two_receives_2)"
  by (simp add: two_receives_2_def two_receives_1_eq state_of_def sim_simps driver_simps)

lemma failed_send_1_eq:
  "failed_send_1 = (fresh_driver [(2, ErrTransceiver 5)] [])
        \<lparr>world := \<lparr>sim_modulation = RFM_MODULATION_OOK, sim_mode = RFM_MODE_STDBY,
                   sim_failures = [(2, ErrTransceiver 5)], sim_frames = [], sim_clock = 3\<rparr>,
         trace := map Radio (take 3 ook_calls)\<rparr>"
  by (simp add: failed_send_1_def failed_send_0_def sim_simps driver_simps)

lemma failed_send_1_err:
  "setOOKMode sim failed_send_0 = (Some (ErrTransceiver 5), failed_send_1)"
  by (simp add: failed_send_1_def failed_send_0_def sim_simps driver_simps)

lemma failed_send_2_ok:
  "SendControl sim (Some [0x06, 0xC6, 0xC6]) OOK_ON_2 8 failed_send_1 = (None, failed_send_2)"
  by (simp add: failed_send_2_def failed_send_1_eq sim_simps driver_simps)

lemma failed_send_2_calls:
  "radio_calls (issued failed_send_1 failed_send_2) = ook_calls"
  by (simp add: failed_send_2_def failed_send_1_eq issued_def sim_simps driver_simps)

lemma failed_receive_1_eq:
  "failed_receive_1 = (fresh_driver [(1, ErrTransceiver 6)] [])
        \<lparr>world := \<lparr>sim_modulation = RFM_MODULATION_OTHER 0, sim_mode = RFM_MODE_STDBY,
                   sim_failures = [(1, ErrTransceiver 6)], sim_frames = [], sim_clock = 2\<rparr>,
         trace := map Radio (take 2 fsk_calls)\<rparr>"
  by (simp add: failed_receive_1_def failed_receive_0_def sim_simps driver_simps)

lemma failed_receive_1_err:
  "setFSKMode sim failed_receive_0 = (Some (ErrTransceiver 6), failed_receive_1)"
  by (simp add: failed_receive_1_def failed_receive_0_def sim_simps driver_simps)

lemma failed_receive_2_ok:
  "Receive sim 1 MIHOME_MODE_MONITOR failed_receive_1 = Some (None, failed_receive_2)"
  by (simp add: failed_receive_2_def failed_receive_1_eq state_of_def sim_simps driver_simps)

lemma failed_receive_2_calls:
  "radio_calls (issued failed_receive_1 failed_receive_2) = fsk_calls @ [SetMode RFM_MODE_RX]"
  by (simp add: failed_receive_2_def failed_receive_1_eq state_of_def issued_def sim_simps driver_simps)

lemma stale_0_is_Open:
  "Open default_config (sim_start [(39, ErrTransceiver 1), (42, ErrTransceiver 2)] []) = Inr stale_0"
  by (simp add: stale_0_def fresh_driver_is_Open)

lemma stale_1_eq:
  "stale_1 = (fresh_driver [(39, ErrTransceiver 1), (42, ErrTransceiver 2)] [])
        \<lparr>world := \<lparr>sim_modulation = RFM_MODULATION_OOK, sim_mode = RFM_MODE_STDBY,
                   sim_failures = [(39, ErrTransceiver 1), (42, ErrTransceiver 2)],
                   sim_frames = [], sim_clock = 17\<rparr>,
         mode := MIHOME_MODE_CONTROL,
         trace := map Radio ook_calls\<rparr>"
  by (simp add: stale_1_def stale_0_def OOK_ON_1_def sim_simps driver_simps)

lemma stale_1_ok:
  "SendControl sim (Some [0x06, 0xC6, 0xC6]) OOK_ON_1 8 stale_0 = (None, stale_1)"
  by (simp add: stale_1_def stale_0_def OOK_ON_1_def sim_simps driver_simps)

lemma stale_2_eq:
  "stale_2 = (fresh_driver [(39, ErrTransceiver 1), (42, ErrTransceiver 2)] [])
        \<lparr>world := \<lparr>sim_modulation = RFM_MODULATION_FSK, sim_mode = RFM_MODE_STDBY,
                   sim_failures = [(39, ErrTransceiver 1), (42, ErrTransceiver 2)],
                   sim_frames = [], sim_clock = 40\<rparr>,
         mode := MIHOME_MODE_CONTROL,
         trace := map Radio ook_calls @ map Radio fsk_calls\<rparr>"
  by (simp add: stale_2_def stale_1_eq state_of_def sim_simps driver_simps)

lemma stale_2_err:
  "Receive sim 1 MIHOME_MODE_MONITOR stale_1 = Some (Some (ErrTransceiver 1), stale_2)"
  by (simp add: stale_2_def stale_1_eq state_of_def sim_simps driver_simps)

lemma stale_3_eq:
  "stale_3 = (fresh_driver [(39, ErrTransceiver 1), (42, ErrTransceiver 2)] [])
        \<lparr>world := \<lparr>sim_modulation = RFM_MODULATION_OOK, sim_mode = RFM_MODE_STDBY,
                   sim_failures = [(39, ErrTransceiver 1), (42, ErrTransceiver 2)],
                   sim_frames = [], sim_clock = 43\<rparr>,
         mode := MIHOME_MODE_CONTROL,
         trace := map Radio ook_calls @ map Radio fsk_calls @ map Radio (take 3 ook_calls)\<rparr>"
  by (simp add: stale_3_def stale_2_eq OOK_ON_1_def sim_simps driver_simps)

lemma stale_3_chain:
  "setOOKMode sim stale_2 = (Some (ErrTransceiver 2), stale_3)"
  by (simp add: stale_3_eq stale_2_eq sim_simps driver_simps)

lemma stale_3_err:
  "SendControl sim (Some [0x06, 0xC6, 0xC6]) OOK_ON_1 8 stale_2 = (Some (ErrTransceiver 2), stale_3)"
  by (simp add: stale_3_def stale_2_eq OOK_ON_1_def sim_simps driver_simps)

lemma stale_3_calls: "radio_calls (issued stale_2 stale_3) = take 3 ook_calls"
  by (simp add: stale_3_eq stale_2_eq issued_def fresh_driver_def ook_calls_def fsk_calls_def)

lemma stale_4_ok:
  "SendControl sim (Some [0x06, 0xC6, 0xC6]) OOK_ON_1 8 stale_3 = (None, stale_4)"
  by (simp add: stale_4_def stale_3_eq OOK_ON_1_def sim_simps driver_simps)

lemma stale_4_calls:
  "radio_calls (issued stale_3 stale_4) =
     [SetMode RFM_MODE_TX, SetSequencer True,
      WritePayload [0x80, 0x00, 0x00, 0x00, 0x8E, 0xE8, 0xEE, 0x88, 0x8E, 0xE8, 0xEE, 0x88,
                    0x8E, 0xE8, 0xEE, 0xEE] 8]"
proof -
  have p: "encodeCommandPayload (Some [0x06, 0xC6, 0xC6]) OOK_ON_1 =
      Inr [0x80, 0x00, 0x00, 0x00, 0x8E, 0xE8, 0xEE, 0x88, 0x8E, 0xE8, 0xEE, 0x88,
           0x8E, 0xE8, 0xEE, 0xEE]"
    by code_simp
  show ?thesis
    by (simp add: stale_4_def stale_3_eq issued_def OOK_ON_1_def [symmetric] p SendControl_def
        radio_call_def SetLED_TX led_effects_def sim_simps)
qed

subsection \<open>The receive loop\<close>

lemma reads_map_Radio: "reads (map Radio cs) = 0"
  by (induction cs) simp_all

lemma receive_loop_numeral:
  "receive_loop R (numeral k) s =
     (if Done R (world s) then Some (None, s)
      else
        (case read_payload R s of
           (Inl err, s1) \<Rightarrow> Some (Some err, s1)
         | (Inr None, s1) \<Rightarrow> receive_loop R (pred_numeral k) s1
         | (Inr (Some data), s1) \<Rightarrow> receive_loop R (pred_numeral k) (receive_data R data s1)))"
  by (simp add: numeral_eq_Suc)

lemma receive_loop_mono:
  "receive_loop R n s = Some res \<Longrightarrow> receive_loop R (n + k) s = Some res"
proof (induction n arbitrary: s)
  case 0
  then show ?case by simp
next
  case (Suc n)
  show ?case
  proof (cases "Done R (world s)")
    case True
    with Suc.prems show ?thesis by simp
  next
    case False
    obtain x s1 where rp: "read_payload R s = (x, s1)" by (cases "read_payload R s")
    show ?thesis
    proof (cases x)
      case (Inl err)
      with False rp Suc.prems show ?thesis by simp
    next
      case (Inr d)
      show ?thesis
      proof (cases d)
        case None
        with Inr False rp Suc.prems have "receive_loop R n s1 = Some res" by simp
        from Suc.IH [OF this] None Inr False rp show ?thesis by simp
      next
        case (Some data)
        with Inr False rp Suc.prems have "receive_loop R n (receive_data R data s1) = Some res"
          by simp
        from Suc.IH [OF this] Some Inr False rp show ?thesis by simp
      qed
    qed
  qed
qed

lemma receive_loop_error_last:
  "receive_loop R n s = Some (Some e, s') \<Longrightarrow>
     \<exists>sl pre. trace sl = trace s @ pre \<and> \<not> Done R (world sl) \<and>
        ReadPayload R (world sl) = (Inl e, world s') \<and>
        s' = sl\<lparr>world := world s', trace := trace sl @ [Read]\<rparr>"
proof (induction n arbitrary: s)
  case 0
  then show ?case by simp
next
  case (Suc n)
  show ?case
  proof (cases "Done R (world s)")
    case True
    with Suc.prems show ?thesis by simp
  next
    case False
    let ?s1 = "s\<lparr>world := snd (ReadPayload R (world s)), trace := trace s @ [Read]\<rparr>"
    show ?thesis
    proof (cases "fst (ReadPayload R (world s))")
      case (Inl err)
      with False Suc.prems have "err = e" "s' = ?s1" by (simp_all add: read_payload_eq)
      with Inl False have "trace s = trace s @ [] \<and> \<not> Done R (world s) \<and>
        ReadPayload R (world s) = (Inl e, world s') \<and>
        s' = s\<lparr>world := world s', trace := trace s @ [Read]\<rparr>"
        by (simp add: prod_eq_iff)
      then show ?thesis by blast
    next
      case (Inr d)
      show ?thesis
      proof (cases d)
        case None
        with Inr False Suc.prems have "receive_loop R n ?s1 = Some (Some e, s')"
          by (simp add: read_payload_eq)
        from Suc.IH [OF this] obtain sl pre where
          "trace sl = trace s @ (Read # pre)" "\<not> Done R (world sl)"
          "ReadPayload R (world sl) = (Inl e, world s')"
          "s' = sl\<lparr>world := world s', trace := trace sl @ [Read]\<rparr>"
          by auto
        then show ?thesis by blast
      next
        case (Some data)
        with Inr False Suc.prems
        have "receive_loop R n (receive_data R data ?s1) = Some (Some e, s')"
          by (simp add: read_payload_eq)
        from Suc.IH [OF this] obtain sl pre where sl:
          "trace sl = trace (receive_data R data ?s1) @ pre" "\<not> Done R (world sl)"
          "ReadPayload R (world sl) = (Inl e, world s')"
          "s' = sl\<lparr>world := world s', trace := trace sl @ [Read]\<rparr>"
          by auto
        from receive_data_frame [of R data ?s1] obtain ys where
          "trace (receive_data R data ?s1) = trace ?s1 @ ys" by blast
        with sl(1) have "trace sl = trace s @ (Read # ys @ pre)" by simp
        with sl(2,3,4) show ?thesis by blast
      qed
    qed
  qed
qed

lemma cancelled_1_eq:
  "cancelled_1 = (fresh_driver [] [])
        \<lparr>world := \<lparr>sim_modulation = RFM_MODULATION_FSK, sim_mode = RFM_MODE_RX,
                   sim_failures = [], sim_frames = [], sim_clock = 24\<rparr>,
         mode := MIHOME_MODE_MONITOR,
         trace := map Radio fsk_calls @ [Radio (SetMode RFM_MODE_RX)]\<rparr>"
  by (simp add: cancelled_1_def cancelled_0_def sim_simps driver_simps)

lemma cancelled_1_ok:
  "receive_prepare sim MIHOME_MODE_MONITOR cancelled_0 = (None, cancelled_1)"
  by (simp add: cancelled_1_def cancelled_0_def sim_simps driver_simps)

lemma read_error_1_eq:
  "read_error_1 = (fresh_driver [] [Inr (Some [7]), Inl (ErrTransceiver 3), Inr (Some [8])])
        \<lparr>world := \<lparr>sim_modulation = RFM_MODULATION_FSK, sim_mode = RFM_MODE_RX,
                   sim_failures = [],
                   sim_frames = [Inr (Some [7]), Inl (ErrTransceiver 3), Inr (Some [8])],
                   sim_clock = 24\<rparr>,
         mode := MIHOME_MODE_MONITOR,
         trace := map Radio fsk_calls @ [Radio (SetMode RFM_MODE_RX)]\<rparr>"
  by (simp add: read_error_1_def read_error_0_def sim_simps driver_simps)

lemma read_error_1_ok:
  "receive_prepare sim MIHOME_MODE_MONITOR read_error_0 = (None, read_error_1)"
  by (simp add: read_error_1_def read_error_0_def sim_simps driver_simps)

lemma read_error_2_eq:
  "read_error_2 = (fresh_driver [] [Inr (Some [7]), Inl (ErrTransceiver 3), Inr (Some [8])])
        \<lparr>world := \<lparr>sim_modulation = RFM_MODULATION_FSK, sim_mode = RFM_MODE_RX,
                   sim_failures = [],
                   sim_frames = [Inl (ErrTransceiver 3), Inr (Some [8])],
                   sim_clock = 25\<rparr>,
         mode := MIHOME_MODE_MONITOR,
         trace := map Radio fsk_calls @
           [Radio (SetMode RFM_MODE_RX), Read,
            SetPinMode (GPIO_PIN 27), WritePin (GPIO_PIN 27) GPIO_HIGH,
            Emit \<lparr>ts = 25, message = 7, reason = None\<rparr>,
            SetPinMode (GPIO_PIN 27), WritePin (GPIO_PIN 27) GPIO_LOW]\<rparr>"
  by (simp add: read_error_2_def read_error_1_eq sim_simps driver_simps)

lemma read_error_2_read:
  "ReadPayload sim (world read_error_2) = (Inl (ErrTransceiver 3), read_error_world)"
  by (simp add: read_error_2_eq read_error_world_def sim_simps)

lemma read_error_3_eq:
  "read_error_3 = read_error_2\<lparr>world := read_error_world, trace := trace read_error_2 @ [Read]\<rparr>"
  by (simp add: read_error_3_def read_error_0_def read_error_2_eq read_error_world_def
      state_of_def receive_loop_numeral sim_simps driver_simps)

lemma read_error_3_loop:
  "receive_loop sim 4 read_error_1 = Some (Some (ErrTransceiver 3), read_error_3)"
  by (simp add: read_error_3_eq read_error_2_eq read_error_1_eq read_error_world_def
      receive_loop_numeral sim_simps driver_simps)

lemma read_fails_1_eq:
  "read_fails_1 = (fresh_driver [] [Inl (ErrTransceiver 4), Inr (Some [9])])
        \<lparr>world := \<lparr>sim_modulation = RFM_MODULATION_FSK, sim_mode = RFM_MODE_RX,
                   sim_failures = [],
                   sim_frames = [Inl (ErrTransceiver 4), Inr (Some [9])],
                   sim_clock = 24\<rparr>,
         mode := MIHOME_MODE_MONITOR,
         trace := map Radio fsk_calls @ [Radio (SetMode RFM_MODE_RX)]\<rparr>"
  by (simp add: read_fails_1_def read_fails_0_def sim_simps driver_simps)

lemma read_fails_1_ok:
  "receive_prepare sim MIHOME_MODE_MONITOR read_fails_0 = (None, read_fails_1)"
  by (simp add: read_fails_1_def read_fails_0_def sim_simps driver_simps)

subsection \<open>On, Off and runs of the receive steps\<close>

lemma On_sockets_append:
  "On_sockets R (xs @ ys) s =
     (case On_sockets R xs s of
        (Some err, s1) \<Rightarrow> (Some err, s1)
      | (None, s1) \<Rightarrow> On_sockets R ys s1)"
  by (induction xs arbitrary: s) (auto split: sum.splits prod.splits option.splits)

lemma Off_sockets_append:
  "Off_sockets R (xs @ ys) s =
     (case Off_sockets R xs s of
        (Some err, s1) \<Rightarrow> (Some err, s1)
      | (None, s1) \<Rightarrow> Off_sockets R ys s1)"
  by (induction xs arbitrary: s) (auto split: sum.splits prod.splits option.splits)




section \<open>The claims\<close>

text \<open>
  C1. The claim: every successful \<open>SendControl\<close> puts the transceiver in TX mode,
  enables the sequencer and writes the payload, also on the first send after a mode
  change. The code at that input: on the driver that \<open>Open\<close> makes (mode
  \<open>MIHOME_MODE_NONE\<close>), with a transceiver that accepts every call,
  \<open>SendControl\<close> returns success after the calls of \<open>setOOKMode\<close> and nothing
  else: no \<open>SetMode(TX)\<close>, no \<open>SetSequencer\<close>, no \<open>WritePayload\<close>. The branch
  that reconfigures is one arm of the \<open>else if\<close> chain whose last arm transmits.
\<close>

theorem first_send_after_mode_change_writes_nothing:
  "Open default_config (sim_start [] []) = Inr (fresh_driver [] []) \<and>
   SendControl sim (cid (fresh_driver [] [])) OOK_ON_ALL (repeat (fresh_driver [] []))
       (fresh_driver [] []) =
     (None, (fresh_driver [] [])
        \<lparr>world := \<lparr>sim_modulation = RFM_MODULATION_OOK, sim_mode = RFM_MODE_STDBY,
                   sim_failures = [], sim_frames = [], sim_clock = 17\<rparr>,
         mode := MIHOME_MODE_CONTROL,
         trace := map Radio ook_calls\<rparr>)"
  by (simp add: fresh_driver_is_Open) (simp add: sim_simps driver_simps)

theorem first_send_after_mode_change_writes_nothing_witness:
  "fst (SendControl sim (cid (fresh_driver [] [])) OOK_ON_ALL (repeat (fresh_driver [] []))
         (fresh_driver [] [])) = None \<and>
   radio_calls (issued (fresh_driver [] [])
       (snd (SendControl sim (cid (fresh_driver [] [])) OOK_ON_ALL (repeat (fresh_driver [] []))
         (fresh_driver [] [])))) = ook_calls \<and>
   length ook_calls = 17 \<and>
   SetMode RFM_MODE_TX \<notin> set ook_calls"
proof -
  note run = first_send_after_mode_change_writes_nothing [THEN conjunct2]
  have "length ook_calls = 17" "SetMode RFM_MODE_TX \<notin> set ook_calls"
    by (simp_all add: ook_calls_def)
  then show ?thesis
    by (simp only: run fst_conv snd_conv)
       (simp add: issued_def radio_calls_map_Radio fresh_driver_def)
qed




text \<open>
  C3. Two successful \<open>SendControl\<close> calls in a row, the transceiver still reporting
  OOK in between: the second issues exactly \<open>SetMode(TX)\<close>, \<open>SetSequencer(true)\<close>
  and \<open>WritePayload\<close> on the transceiver and no step of the OOK configuration; when the
  first had to reconfigure, the calls of both together are the OOK sequence once, followed
  by these three. Two \<open>Receive\<close> calls in a row, the first returning success and the
  transceiver still reporting FSK: the second issues only \<open>SetMode(RX)\<close> or
  \<open>ClearFIFO\<close>; when the first had to reconfigure, the calls of both together are the
  FSK sequence once, followed only by \<open>SetMode(RX)\<close> and \<open>ClearFIFO\<close> calls.
\<close>

theorem mode_transitions_idempotent:
  "(SendControl R c cmd rpt s = (None, s1) \<and>
    Modulation R (world s1) = RFM_MODULATION_OOK \<and>
    SendControl R c' cmd' rpt' s1 = (None, s2) \<longrightarrow>
      (\<exists>p. encodeCommandPayload c' cmd' = Inr p \<and>
           radio_calls (issued s1 s2) =
             [SetMode RFM_MODE_TX, SetSequencer True, WritePayload p rpt'] \<and>
           (Modulation R (world s) \<noteq> RFM_MODULATION_OOK \<or> mode s \<noteq> MIHOME_MODE_CONTROL \<longrightarrow>
              radio_calls (issued s s2) =
                ook_calls @ [SetMode RFM_MODE_TX, SetSequencer True, WritePayload p rpt']))) \<and>
   (Receive R n MIHOME_MODE_MONITOR s = Some (None, s1) \<and>
    Modulation R (world s1) = RFM_MODULATION_FSK \<and>
    Receive R m MIHOME_MODE_MONITOR s1 = Some (r, s2) \<longrightarrow>
      set (radio_calls (issued s1 s2)) \<subseteq> {SetMode RFM_MODE_RX, ClearFIFO} \<and>
      (Modulation R (world s) \<noteq> RFM_MODULATION_FSK \<or> mode s \<noteq> MIHOME_MODE_MONITOR \<longrightarrow>
         (\<exists>rest. radio_calls (issued s s2) = fsk_calls @ rest \<and>
                 set rest \<subseteq> {SetMode RFM_MODE_RX, ClearFIFO})))"
proof (rule conjI; rule impI)
  assume a: "SendControl R c cmd rpt s = (None, s1) \<and>
    Modulation R (world s1) = RFM_MODULATION_OOK \<and>
    SendControl R c' cmd' rpt' s1 = (None, s2)"
  then have m1: "mode s1 = MIHOME_MODE_CONTROL"
    using SendControl_ok_mode [of R c cmd rpt s s1] by blast
  from a SendControl_transmit_ok [of R s1 c' cmd' rpt' s2] m1
  obtain p where p: "encodeCommandPayload c' cmd' = Inr p"
    and t2: "trace s2 = trace s1 @ [Radio (SetMode RFM_MODE_TX), Radio (SetSequencer True)] @
                     led_effects (ledtx s1) GPIO_HIGH @ [Radio (WritePayload p rpt')] @
                     led_effects (ledtx s1) GPIO_LOW"
    by auto
  have second: "radio_calls (issued s1 s2) =
      [SetMode RFM_MODE_TX, SetSequencer True, WritePayload p rpt']"
    by (simp add: issued_append [OF t2] radio_calls_append radio_calls_led)
  have both: "radio_calls (issued s s2) =
      ook_calls @ [SetMode RFM_MODE_TX, SetSequencer True, WritePayload p rpt']"
    if g: "Modulation R (world s) \<noteq> RFM_MODULATION_OOK \<or> mode s \<noteq> MIHOME_MODE_CONTROL"
  proof -
    from a SendControl_reconfigure_ok [OF g, of c cmd rpt s1]
    have t1: "trace s1 = trace s @ map Radio ook_calls" by simp
    show ?thesis
      by (simp add: issued_trans [OF t1 t2] radio_calls_append radio_calls_led
          radio_calls_map_Radio)
  qed
  from p second both
  show "\<exists>p. encodeCommandPayload c' cmd' = Inr p \<and>
           radio_calls (issued s1 s2) =
             [SetMode RFM_MODE_TX, SetSequencer True, WritePayload p rpt'] \<and>
           (Modulation R (world s) \<noteq> RFM_MODULATION_OOK \<or> mode s \<noteq> MIHOME_MODE_CONTROL \<longrightarrow>
              radio_calls (issued s s2) =
                ook_calls @ [SetMode RFM_MODE_TX, SetSequencer True, WritePayload p rpt'])"
    by blast
next
  assume a: "Receive R n MIHOME_MODE_MONITOR s = Some (None, s1) \<and>
    Modulation R (world s1) = RFM_MODULATION_FSK \<and>
    Receive R m MIHOME_MODE_MONITOR s1 = Some (r, s2)"
  from a obtain s0 where p0: "receive_prepare R MIHOME_MODE_MONITOR s = (None, s0)"
    and l0: "receive_loop R n s0 = Some (None, s1)"
    by (auto simp: Receive_def split: prod.splits option.splits)
  from receive_prepare_ok [OF p0] obtain c0 where c0: "c0 \<in> {SetMode RFM_MODE_RX, ClearFIFO}"
    and t0: "trace s0 = trace s @
          (if Modulation R (world s) \<noteq> RFM_MODULATION_FSK \<or> mode s \<noteq> MIHOME_MODE_MONITOR
           then map Radio fsk_calls else []) @ [Radio c0]"
    and m0: "mode s0 = MIHOME_MODE_MONITOR"
    by blast
  from receive_loop_frame [OF l0] m0 obtain xs where m1: "mode s1 = MIHOME_MODE_MONITOR"
    and t1: "trace s1 = trace s0 @ xs" and x1: "set (radio_calls xs) \<subseteq> {ClearFIFO}"
    by auto
  have "\<exists>ys. trace s2 = trace s1 @ ys \<and> set (radio_calls ys) \<subseteq> {SetMode RFM_MODE_RX, ClearFIFO}"
  proof (cases "receive_prepare R MIHOME_MODE_MONITOR s1")
    case (Pair e s3)
    show ?thesis
    proof (cases e)
      case None
      with Pair a have l3: "receive_loop R m s3 = Some (r, s2)" by (simp add: Receive_def)
      from receive_prepare_ok [of R MIHOME_MODE_MONITOR s1 s3] Pair None a m1
      obtain c3 where c3: "c3 \<in> {SetMode RFM_MODE_RX, ClearFIFO}"
        and t3: "trace s3 = trace s1 @ [Radio c3]"
        by auto
      from receive_loop_frame [OF l3] obtain zs where
        "trace s2 = trace s3 @ zs" "set (radio_calls zs) \<subseteq> {ClearFIFO}"
        by auto
      with c3 t3 have "trace s2 = trace s1 @ (Radio c3 # zs) \<and>
          set (radio_calls (Radio c3 # zs)) \<subseteq> {SetMode RFM_MODE_RX, ClearFIFO}"
        by auto
      then show ?thesis by blast
    next
      case (Some err)
      with Pair a have s23: "s2 = s3" by (simp add: Receive_def)
      from Pair Some a m1 have "trace s3 = trace s1 @ [Radio (SetMode RFM_MODE_RX)] \<or>
          trace s3 = trace s1 @ [Radio ClearFIFO]"
        by (auto simp: receive_prepare_def radio_call_eq split: if_splits)
      with s23 have "trace s2 = trace s1 @ [Radio (SetMode RFM_MODE_RX)] \<and>
            set (radio_calls [Radio (SetMode RFM_MODE_RX) :: 'b effect]) \<subseteq> {SetMode RFM_MODE_RX, ClearFIFO}
          \<or> trace s2 = trace s1 @ [Radio ClearFIFO] \<and>
            set (radio_calls [Radio ClearFIFO :: 'b effect]) \<subseteq> {SetMode RFM_MODE_RX, ClearFIFO}"
        by auto
      then show ?thesis by blast
    qed
  qed
  then obtain ys where t2: "trace s2 = trace s1 @ ys"
    and y2: "set (radio_calls ys) \<subseteq> {SetMode RFM_MODE_RX, ClearFIFO}"
    by blast
  have second: "set (radio_calls (issued s1 s2)) \<subseteq> {SetMode RFM_MODE_RX, ClearFIFO}"
    using y2 by (simp add: issued_append [OF t2])
  have both: "\<exists>rest. radio_calls (issued s s2) = fsk_calls @ rest \<and>
                 set rest \<subseteq> {SetMode RFM_MODE_RX, ClearFIFO}"
    if g: "Modulation R (world s) \<noteq> RFM_MODULATION_FSK \<or> mode s \<noteq> MIHOME_MODE_MONITOR"
  proof -
    from g t0 t1 have t01: "trace s1 = trace s @ (map Radio fsk_calls @ Radio c0 # xs)" by simp
    have "radio_calls (issued s s2) = fsk_calls @ (c0 # radio_calls xs @ radio_calls ys)"
      by (simp add: issued_trans [OF t01 t2] radio_calls_append radio_calls_map_Radio)
    moreover have "set (c0 # radio_calls xs @ radio_calls ys) \<subseteq> {SetMode RFM_MODE_RX, ClearFIFO}"
      using c0 x1 y2 by auto
    ultimately show ?thesis by blast
  qed
  from second both
  show "set (radio_calls (issued s1 s2)) \<subseteq> {SetMode RFM_MODE_RX, ClearFIFO} \<and>
      (Modulation R (world s) \<noteq> RFM_MODULATION_FSK \<or> mode s \<noteq> MIHOME_MODE_MONITOR \<longrightarrow>
         (\<exists>rest. radio_calls (issued s s2) = fsk_calls @ rest \<and>
                 set rest \<subseteq> {SetMode RFM_MODE_RX, ClearFIFO}))"
    by blast
qed

theorem mode_transitions_idempotent_witness:
  "SendControl sim (Some [0x06, 0xC6, 0xC6]) OOK_ON_1 8 (fresh_driver [] []) = (None, two_sends_1) \<and>
   Modulation sim (world two_sends_1) = RFM_MODULATION_OOK \<and>
   SendControl sim (Some [0x06, 0xC6, 0xC6]) OOK_OFF_1 8 two_sends_1 = (None, two_sends_2) \<and>
   mode (fresh_driver [] [] :: (sim_world, nat) mihome) \<noteq> MIHOME_MODE_CONTROL \<and>
   radio_calls (issued (fresh_driver [] []) two_sends_2) =
     ook_calls @ [SetMode RFM_MODE_TX, SetSequencer True,
       WritePayload [0x80, 0x00, 0x00, 0x00, 0x8E, 0xE8, 0xEE, 0x88, 0x8E, 0xE8, 0xEE, 0x88,
                     0x8E, 0xE8, 0xEE, 0xE8] 8] \<and>
   Receive sim 3 MIHOME_MODE_MONITOR two_receives_0 = Some (None, two_receives_1) \<and>
   Modulation sim (world two_receives_1) = RFM_MODULATION_FSK \<and>
   Receive sim 1 MIHOME_MODE_MONITOR two_receives_1 = Some (None, two_receives_2) \<and>
   mode two_receives_0 \<noteq> MIHOME_MODE_MONITOR \<and>
   set (radio_calls (issued two_receives_1 two_receives_2)) \<subseteq> {SetMode RFM_MODE_RX, ClearFIFO} \<and>
   take 23 (radio_calls (issued two_receives_0 two_receives_2)) = fsk_calls"
proof -
  have h2: "Modulation sim (world two_sends_1) = RFM_MODULATION_OOK"
    by (simp add: two_sends_1_eq sim_def)
  have h4: "mode (fresh_driver [] [] :: (sim_world, nat) mihome) \<noteq> MIHOME_MODE_CONTROL"
    by (simp add: fresh_driver_def)
  have p: "encodeCommandPayload (Some [0x06, 0xC6, 0xC6]) OOK_OFF_1 =
      Inr [0x80, 0x00, 0x00, 0x00, 0x8E, 0xE8, 0xEE, 0x88, 0x8E, 0xE8, 0xEE, 0x88,
           0x8E, 0xE8, 0xEE, 0xE8]"
    by code_simp
  from mode_transitions_idempotent [of sim "Some [0x06, 0xC6, 0xC6]" OOK_ON_1 8
      "fresh_driver [] []" two_sends_1 "Some [0x06, 0xC6, 0xC6]" OOK_OFF_1 8 two_sends_2]
    two_sends_1_ok h2 two_sends_2_ok h4 p
  have sends: "radio_calls (issued (fresh_driver [] []) two_sends_2) =
     ook_calls @ [SetMode RFM_MODE_TX, SetSequencer True,
       WritePayload [0x80, 0x00, 0x00, 0x00, 0x8E, 0xE8, 0xEE, 0x88, 0x8E, 0xE8, 0xEE, 0x88,
                     0x8E, 0xE8, 0xEE, 0xE8] 8]"
    by auto
  have g2: "Modulation sim (world two_receives_1) = RFM_MODULATION_FSK"
    by (simp add: two_receives_1_eq sim_def)
  have g4: "mode two_receives_0 \<noteq> MIHOME_MODE_MONITOR"
    by (simp add: two_receives_0_def fresh_driver_def)
  from mode_transitions_idempotent [of sim _ _ _ two_receives_0 two_receives_1 _ _ _
      two_receives_2 3 1 None]
    two_receives_1_ok g2 two_receives_2_ok g4
  have recv: "set (radio_calls (issued two_receives_1 two_receives_2)) \<subseteq> {SetMode RFM_MODE_RX, ClearFIFO}"
    and "\<exists>rest. radio_calls (issued two_receives_0 two_receives_2) = fsk_calls @ rest"
    by blast+
  then have tk: "take 23 (radio_calls (issued two_receives_0 two_receives_2)) = fsk_calls"
    by (auto simp: fsk_calls_def)
  from two_sends_1_ok h2 two_sends_2_ok h4 sends two_receives_1_ok g2 two_receives_2_ok g4 recv tk
  show ?thesis by blast
qed

text \<open>
  C4. For an address of exactly 3 bytes and any command byte, \<open>encodeCommandPayload\<close>
  returns 16 bytes: the preamble \<open>0x80 0x00 0x00 0x00\<close>, then the last 10 of the 12
  bytes of the encoded address, then the last 2 of the 4 bytes of the encoded command.
  For an address of any other length, and for the nil address, it returns
  \<open>ErrAppError\<close>.
\<close>

theorem encodeCommandPayload_layout:
  "(length a = 3 \<longrightarrow>
      (\<exists>p. encodeCommandPayload (Some a) cmd = Inr p \<and>
           length p = 16 \<and>
           take 4 p = [0x80, 0x00, 0x00, 0x00] \<and>
           length (concat (map encodeByte a)) = 12 \<and>
           take 10 (drop 4 p) = drop 2 (concat (map encodeByte a)) \<and>
           length (encodeByte cmd) = 4 \<and>
           drop 14 p = drop 2 (encodeByte cmd))) \<and>
   (length a \<noteq> 3 \<longrightarrow> encodeCommandPayload (Some a) cmd = Inl ErrAppError) \<and>
   encodeCommandPayload None cmd = Inl ErrAppError"
  by (simp add: encodeCommandPayload_Some encodeCommandPayload_None OOK_PREAMBLE_def
      length_encodeByte length_encode_address)

theorem encodeCommandPayload_layout_witness:
  "length [0x12, 0x34, 0x56 :: byte] = 3 \<and>
   encodeCommandPayload (Some [0x12, 0x34, 0x56]) OOK_OFF_2 =
     Inr [0x80, 0x00, 0x00, 0x00, 0x88, 0xE8, 0x88, 0xEE, 0x8E, 0x88, 0x8E, 0x8E, 0x8E, 0xE8, 0x8E, 0xE8] \<and>
   length [0x01, 0x02 :: byte] \<noteq> 3 \<and>
   encodeCommandPayload (Some [0x01, 0x02]) OOK_ON_1 = Inl ErrAppError"
proof -
  have h: "length [0x12, 0x34, 0x56 :: byte] = 3" by simp
  have g: "length [0x01, 0x02 :: byte] \<noteq> 3" by simp
  have e: "encodeCommandPayload (Some [0x12, 0x34, 0x56]) OOK_OFF_2 =
     Inr [0x80, 0x00, 0x00, 0x00, 0x88, 0xE8, 0x88, 0xEE, 0x8E, 0x88, 0x8E, 0x8E, 0x8E, 0xE8, 0x8E, 0xE8]"
    by code_simp
  from encodeCommandPayload_layout [of "[0x01, 0x02]" OOK_ON_1] g
  have "encodeCommandPayload (Some [0x01, 0x02]) OOK_ON_1 = Inl ErrAppError" by blast
  moreover from encodeCommandPayload_layout [of "[0x12, 0x34, 0x56]" OOK_OFF_2] h
  have "\<exists>p. encodeCommandPayload (Some [0x12, 0x34, 0x56]) OOK_OFF_2 = Inr p \<and> length p = 16" by blast
  ultimately show ?thesis using h g e by blast
qed

text \<open>
  C5. For every byte \<open>b\<close>, \<open>encodeByte b\<close> has exactly 4 bytes; they are the
  eight bits of \<open>b\<close>, most significant first, each turned into a nibble (0 into
  \<open>0x8\<close>, 1 into \<open>0xE\<close>) and packed two per byte; and the inverse nibble mapping
  (\<open>0x8\<close> to 0, \<open>0xE\<close> to 1) applied to these bytes gives \<open>b\<close> back.
\<close>

theorem encodeByte_nibbles_roundtrip:
  "length (encodeByte b) = 4 \<and>
   encodeByte b = spec_EncodeByte b \<and>
   spec_DecodeByte (encodeByte b) = Some b"
  by (simp only: length_encodeByte encodeByte_eq_spec [symmetric] spec_DecodeByte_encodeByte simp_thms)

text \<open>
  C6. The device address \<open>6C6C6\<close> is padded to \<open>06C6C6\<close> and decodes to the three
  bytes \<open>0x06 0xC6 0xC6\<close>; the payload for this address and \<open>OOK_ON_ALL\<close> (0x0D) is
  the fixed sequence of 16 bytes below. (The codec is a function of its arguments alone, so
  every evaluation gives this sequence.)
\<close>

theorem golden_payload:
  "pad_even ''6C6C6'' = ''06C6C6'' \<and>
   decodeHexString CID_DEFAULT = Inr [0x06, 0xC6, 0xC6] \<and>
   encodeCommandPayload (Some [0x06, 0xC6, 0xC6]) OOK_ON_ALL =
     Inr [0x80, 0x00, 0x00, 0x00, 0x8E, 0xE8, 0xEE, 0x88, 0x8E, 0xE8, 0xEE, 0x88, 0x8E, 0xE8, 0xEE, 0x8E]"
  by code_simp

text \<open>
  C7, as the code has it. When a call of \<open>setOOKMode\<close> (in \<open>SendControl\<close>) or of
  \<open>setFSKMode\<close> (in \<open>Receive\<close>) returns an error, the calls issued are the
  sequence up to and including one step, the error is the one the transceiver returned
  for that step, the caller returns it, and the logical mode is unchanged. The next call
  runs the sequence again from its first step whenever its own test asks for it: the
  logical mode is not the target mode (in particular, it was not before the failed call)
  or the transceiver does not report the target modulation.
\<close>

theorem failed_configuration_keeps_mode:
  "(rpt \<noteq> 0 \<and> encodeCommandPayload c cmd = Inr p \<and>
    (Modulation R (world s) \<noteq> RFM_MODULATION_OOK \<or> mode s \<noteq> MIHOME_MODE_CONTROL) \<and>
    setOOKMode R s = (Some e, s1) \<longrightarrow>
      SendControl R c cmd rpt s = (Some e, s1) \<and>
      mode s1 = mode s \<and>
      (\<exists>k<length ook_calls.
          radio_calls (issued s s1) = take (Suc k) ook_calls \<and>
          fst (radio R (ook_calls ! k) (world_after R (take k ook_calls) (world s))) = Some e) \<and>
      (rpt2 \<noteq> 0 \<and> encodeCommandPayload c2 cmd2 = Inr p2 \<and>
       (Modulation R (world s1) \<noteq> RFM_MODULATION_OOK \<or> mode s \<noteq> MIHOME_MODE_CONTROL) \<and>
       SendControl R c2 cmd2 rpt2 s1 = (r2, s2) \<longrightarrow>
         restarts ook_calls (radio_calls (issued s1 s2)))) \<and>
   ((Modulation R (world s) \<noteq> RFM_MODULATION_FSK \<or> mode s \<noteq> MIHOME_MODE_MONITOR) \<and>
    setFSKMode R s = (Some e, s1) \<longrightarrow>
      Receive R n MIHOME_MODE_MONITOR s = Some (Some e, s1) \<and>
      mode s1 = mode s \<and>
      (\<exists>k<length fsk_calls.
          radio_calls (issued s s1) = take (Suc k) fsk_calls \<and>
          fst (radio R (fsk_calls ! k) (world_after R (take k fsk_calls) (world s))) = Some e) \<and>
      ((Modulation R (world s1) \<noteq> RFM_MODULATION_FSK \<or> mode s \<noteq> MIHOME_MODE_MONITOR) \<and>
       Receive R n2 MIHOME_MODE_MONITOR s1 = Some (r2, s2) \<longrightarrow>
         restarts fsk_calls (radio_calls (issued s1 s2))))"
proof (rule conjI; rule impI)
  assume a: "rpt \<noteq> 0 \<and> encodeCommandPayload c cmd = Inr p \<and>
    (Modulation R (world s) \<noteq> RFM_MODULATION_OOK \<or> mode s \<noteq> MIHOME_MODE_CONTROL) \<and>
    setOOKMode R s = (Some e, s1)"
  then have ch: "radio_chain R ook_calls s = (Some e, s1)" by (simp add: setOOKMode_def)
  from a ch have ret: "SendControl R c cmd rpt s = (Some e, s1)"
    by (simp add: SendControl_reconfigure [of rpt c cmd p R s])
  from radio_chain_err [OF ch] obtain k where k: "k < length ook_calls"
    "s1 = s\<lparr>world := world_after R (take (Suc k) ook_calls) (world s),
           trace := trace s @ map Radio (take (Suc k) ook_calls)\<rparr>"
    "fst (radio R (ook_calls ! k) (world_after R (take k ook_calls) (world s))) = Some e"
    by blast
  from k(2) have m: "mode s1 = mode s" by simp
  from k(2) have "trace s1 = trace s @ map Radio (take (Suc k) ook_calls)" by simp
  from issued_append [OF this]
  have i: "radio_calls (issued s s1) = take (Suc k) ook_calls"
    by (simp add: radio_calls_map_Radio)
  have nxt: "restarts ook_calls (radio_calls (issued s1 s2))"
    if b: "rpt2 \<noteq> 0 \<and> encodeCommandPayload c2 cmd2 = Inr p2 \<and>
       (Modulation R (world s1) \<noteq> RFM_MODULATION_OOK \<or> mode s \<noteq> MIHOME_MODE_CONTROL) \<and>
       SendControl R c2 cmd2 rpt2 s1 = (r2, s2)"
    using b m SendControl_retry [of rpt2 c2 cmd2 p2 R s1 r2 s2] by auto
  from ret m k(1) i k(3) nxt
  show "SendControl R c cmd rpt s = (Some e, s1) \<and>
      mode s1 = mode s \<and>
      (\<exists>k<length ook_calls.
          radio_calls (issued s s1) = take (Suc k) ook_calls \<and>
          fst (radio R (ook_calls ! k) (world_after R (take k ook_calls) (world s))) = Some e) \<and>
      (rpt2 \<noteq> 0 \<and> encodeCommandPayload c2 cmd2 = Inr p2 \<and>
       (Modulation R (world s1) \<noteq> RFM_MODULATION_OOK \<or> mode s \<noteq> MIHOME_MODE_CONTROL) \<and>
       SendControl R c2 cmd2 rpt2 s1 = (r2, s2) \<longrightarrow>
         restarts ook_calls (radio_calls (issued s1 s2)))"
    by blast
next
  assume a: "(Modulation R (world s) \<noteq> RFM_MODULATION_FSK \<or> mode s \<noteq> MIHOME_MODE_MONITOR) \<and>
    setFSKMode R s = (Some e, s1)"
  then have ch: "radio_chain R fsk_calls s = (Some e, s1)" by (simp add: setFSKMode_def)
  from a have ret: "Receive R n MIHOME_MODE_MONITOR s = Some (Some e, s1)"
    by (auto simp: Receive_def receive_prepare_def)
  from radio_chain_err [OF ch] obtain k where k: "k < length fsk_calls"
    "s1 = s\<lparr>world := world_after R (take (Suc k) fsk_calls) (world s),
           trace := trace s @ map Radio (take (Suc k) fsk_calls)\<rparr>"
    "fst (radio R (fsk_calls ! k) (world_after R (take k fsk_calls) (world s))) = Some e"
    by blast
  from k(2) have m: "mode s1 = mode s" by simp
  from k(2) have "trace s1 = trace s @ map Radio (take (Suc k) fsk_calls)" by simp
  from issued_append [OF this]
  have i: "radio_calls (issued s s1) = take (Suc k) fsk_calls"
    by (simp add: radio_calls_map_Radio)
  have nxt: "restarts fsk_calls (radio_calls (issued s1 s2))"
    if b: "(Modulation R (world s1) \<noteq> RFM_MODULATION_FSK \<or> mode s \<noteq> MIHOME_MODE_MONITOR) \<and>
       Receive R n2 MIHOME_MODE_MONITOR s1 = Some (r2, s2)"
    using b m Receive_retry [of R s1 n2 r2 s2] by auto
  from ret m k(1) i k(3) nxt
  show "Receive R n MIHOME_MODE_MONITOR s = Some (Some e, s1) \<and>
      mode s1 = mode s \<and>
      (\<exists>k<length fsk_calls.
          radio_calls (issued s s1) = take (Suc k) fsk_calls \<and>
          fst (radio R (fsk_calls ! k) (world_after R (take k fsk_calls) (world s))) = Some e) \<and>
      ((Modulation R (world s1) \<noteq> RFM_MODULATION_FSK \<or> mode s \<noteq> MIHOME_MODE_MONITOR) \<and>
       Receive R n2 MIHOME_MODE_MONITOR s1 = Some (r2, s2) \<longrightarrow>
         restarts fsk_calls (radio_calls (issued s1 s2)))"
    by blast
qed

theorem failed_configuration_keeps_mode_witness:
  "encodeCommandPayload (Some [0x06, 0xC6, 0xC6]) OOK_ON_2 =
     Inr [0x80, 0x00, 0x00, 0x00, 0x8E, 0xE8, 0xEE, 0x88, 0x8E, 0xE8, 0xEE, 0x88,
          0x8E, 0xE8, 0x8E, 0xEE] \<and>
   mode failed_send_0 \<noteq> MIHOME_MODE_CONTROL \<and>
   setOOKMode sim failed_send_0 = (Some (ErrTransceiver 5), failed_send_1) \<and>
   SendControl sim (Some [0x06, 0xC6, 0xC6]) OOK_ON_2 8 failed_send_0 =
     (Some (ErrTransceiver 5), failed_send_1) \<and>
   mode failed_send_1 = mode failed_send_0 \<and>
   SendControl sim (Some [0x06, 0xC6, 0xC6]) OOK_ON_2 8 failed_send_1 = (None, failed_send_2) \<and>
   restarts ook_calls (radio_calls (issued failed_send_1 failed_send_2)) \<and>
   radio_calls (issued failed_send_1 failed_send_2) = ook_calls \<and>
   mode failed_receive_0 \<noteq> MIHOME_MODE_MONITOR \<and>
   setFSKMode sim failed_receive_0 = (Some (ErrTransceiver 6), failed_receive_1) \<and>
   Receive sim 1 MIHOME_MODE_MONITOR failed_receive_0 =
     Some (Some (ErrTransceiver 6), failed_receive_1) \<and>
   mode failed_receive_1 = mode failed_receive_0 \<and>
   Receive sim 1 MIHOME_MODE_MONITOR failed_receive_1 = Some (None, failed_receive_2) \<and>
   restarts fsk_calls (radio_calls (issued failed_receive_1 failed_receive_2)) \<and>
   radio_calls (issued failed_receive_1 failed_receive_2) = fsk_calls @ [SetMode RFM_MODE_RX]"
proof -
  have p: "encodeCommandPayload (Some [0x06, 0xC6, 0xC6]) OOK_ON_2 =
     Inr [0x80, 0x00, 0x00, 0x00, 0x8E, 0xE8, 0xEE, 0x88, 0x8E, 0xE8, 0xEE, 0x88,
          0x8E, 0xE8, 0x8E, 0xEE]"
    by code_simp
  have g1: "mode failed_send_0 \<noteq> MIHOME_MODE_CONTROL"
    by (simp add: failed_send_0_def fresh_driver_def)
  have g2: "mode failed_receive_0 \<noteq> MIHOME_MODE_MONITOR"
    by (simp add: failed_receive_0_def fresh_driver_def)
  have r8: "(8::nat) \<noteq> 0" by simp
  from failed_configuration_keeps_mode [of 8 "Some [0x06, 0xC6, 0xC6]" OOK_ON_2 _ sim
      failed_send_0 "ErrTransceiver 5" failed_send_1 8 "Some [0x06, 0xC6, 0xC6]" OOK_ON_2 _
      None failed_send_2]
    r8 p g1 failed_send_1_err failed_send_2_ok
  have send: "SendControl sim (Some [0x06, 0xC6, 0xC6]) OOK_ON_2 8 failed_send_0 =
       (Some (ErrTransceiver 5), failed_send_1)"
    "mode failed_send_1 = mode failed_send_0"
    "restarts ook_calls (radio_calls (issued failed_send_1 failed_send_2))"
    by blast+
  from failed_configuration_keeps_mode [of _ _ _ _ sim failed_receive_0 "ErrTransceiver 6"
      failed_receive_1 _ _ _ _ None failed_receive_2 1 1]
    g2 failed_receive_1_err failed_receive_2_ok
  have recv: "Receive sim 1 MIHOME_MODE_MONITOR failed_receive_0 =
       Some (Some (ErrTransceiver 6), failed_receive_1)"
    "mode failed_receive_1 = mode failed_receive_0"
    "restarts fsk_calls (radio_calls (issued failed_receive_1 failed_receive_2))"
    by blast+
  from p g1 failed_send_1_err send failed_send_2_ok failed_send_2_calls
    g2 failed_receive_1_err recv failed_receive_2_ok failed_receive_2_calls
  show ?thesis by blast
qed

text \<open>
  C7, as the claim states it, fails where the logical mode already was the target mode. On
  the driver that \<open>Open\<close> makes: a send configures the transceiver (mode
  \<open>MIHOME_MODE_CONTROL\<close>); a receive fails at the last step of the FSK sequence and
  leaves the mode at \<open>MIHOME_MODE_CONTROL\<close> while the transceiver is set up for FSK; a
  send fails at the third step of the OOK sequence, after \<open>SetModulation(OOK)\<close>; the
  next send finds the OOK modulation and the mode \<open>MIHOME_MODE_CONTROL\<close> and transmits
  without running the sequence again.
\<close>

theorem stale_mode_skips_configuration:
  "Open default_config (sim_start [(39, ErrTransceiver 1), (42, ErrTransceiver 2)] []) = Inr stale_0 \<and>
   SendControl sim (Some [0x06, 0xC6, 0xC6]) OOK_ON_1 8 stale_0 = (None, stale_1) \<and>
   Receive sim 1 MIHOME_MODE_MONITOR stale_1 = Some (Some (ErrTransceiver 1), stale_2) \<and>
   setOOKMode sim stale_2 = (Some (ErrTransceiver 2), stale_3) \<and>
   SendControl sim (Some [0x06, 0xC6, 0xC6]) OOK_ON_1 8 stale_2 = (Some (ErrTransceiver 2), stale_3) \<and>
   radio_calls (issued stale_2 stale_3) = take 3 ook_calls \<and>
   mode stale_3 = mode stale_2 \<and>
   SendControl sim (Some [0x06, 0xC6, 0xC6]) OOK_ON_1 8 stale_3 = (None, stale_4) \<and>
   radio_calls (issued stale_3 stale_4) =
     [SetMode RFM_MODE_TX, SetSequencer True,
      WritePayload [0x80, 0x00, 0x00, 0x00, 0x8E, 0xE8, 0xEE, 0x88, 0x8E, 0xE8, 0xEE, 0x88,
                    0x8E, 0xE8, 0xEE, 0xEE] 8] \<and>
   \<not> restarts ook_calls (radio_calls (issued stale_3 stale_4))"
proof -
  have m: "mode stale_3 = mode stale_2" by (simp add: stale_3_eq stale_2_eq)
  have n: "\<not> restarts ook_calls (radio_calls (issued stale_3 stale_4))"
    by (simp add: stale_4_calls restarts_def ook_calls_def)
  from stale_0_is_Open stale_1_ok stale_2_err stale_3_chain stale_3_err stale_3_calls m
    stale_4_ok stale_4_calls n
  show ?thesis by blast
qed

text \<open>
  C8. When the context is done as the loop is entered (the part of \<open>Receive\<close> before
  the loop has returned no error), \<open>Receive\<close> returns success after one look at the
  context: no payload is read and no event is published. And a result of \<open>Receive\<close> is
  final: once the loop has ended within some number of rounds, allowing it more rounds
  gives the same result and the same trace, so nothing is published after the return.
\<close>

theorem cancelled_receive_publishes_nothing:
  "(receive_prepare R md s = (None, s0) \<and> Done R (world s0) \<longrightarrow>
      Receive R (Suc n) md s = Some (None, s0) \<and>
      events (issued s s0) = [] \<and> reads (issued s s0) = 0) \<and>
   (Receive R n md s = Some res \<longrightarrow> Receive R (n + k) md s = Some res)"
proof (rule conjI; rule impI)
  assume a: "receive_prepare R md s = (None, s0) \<and> Done R (world s0)"
  then have r: "Receive R (Suc n) md s = Some (None, s0)" by (simp add: Receive_def)
  from a receive_prepare_ok [of R md s s0] obtain c where
    "trace s0 = trace s @
          (if Modulation R (world s) \<noteq> RFM_MODULATION_FSK \<or> mode s \<noteq> MIHOME_MODE_MONITOR
           then map Radio fsk_calls else []) @ [Radio c]"
    by blast
  from issued_append [OF this]
  have "events (issued s s0) = [] \<and> reads (issued s s0) = 0"
    by (simp add: events_append events_map_Radio reads_append reads_map_Radio)
  with r show "Receive R (Suc n) md s = Some (None, s0) \<and>
      events (issued s s0) = [] \<and> reads (issued s s0) = 0"
    by blast
next
  assume a: "Receive R n md s = Some res"
  show "Receive R (n + k) md s = Some res"
  proof (cases "receive_prepare R md s")
    case (Pair e s1)
    show ?thesis
    proof (cases e)
      case None
      with Pair a have "receive_loop R n s1 = Some res" by (simp add: Receive_def)
      from receive_loop_mono [OF this] Pair None show ?thesis by (simp add: Receive_def)
    next
      case (Some err)
      with Pair have rp: "receive_prepare R md s = (Some err, s1)" by simp
      with a have "res = (Some err, s1)" by (simp add: Receive_def)
      with rp show ?thesis by (simp add: Receive_def)
    qed
  qed
qed

theorem cancelled_receive_publishes_nothing_witness:
  "receive_prepare sim MIHOME_MODE_MONITOR cancelled_0 = (None, cancelled_1) \<and>
   Done sim (world cancelled_1) \<and>
   Receive sim (Suc 0) MIHOME_MODE_MONITOR cancelled_0 = Some (None, cancelled_1) \<and>
   events (issued cancelled_0 cancelled_1) = [] \<and>
   reads (issued cancelled_0 cancelled_1) = 0 \<and>
   Receive sim (Suc 0 + 4) MIHOME_MODE_MONITOR cancelled_0 = Some (None, cancelled_1)"
proof -
  have d: "Done sim (world cancelled_1)" by (simp add: cancelled_1_eq sim_def)
  from cancelled_receive_publishes_nothing [where R = sim and md = MIHOME_MODE_MONITOR
      and s = cancelled_0 and ?s0.0 = cancelled_1 and n = 0]
    cancelled_1_ok d
  have one: "Receive sim (Suc 0) MIHOME_MODE_MONITOR cancelled_0 = Some (None, cancelled_1)"
    "events (issued cancelled_0 cancelled_1) = []" "reads (issued cancelled_0 cancelled_1) = 0"
    by blast+
  from cancelled_receive_publishes_nothing [where R = sim and md = MIHOME_MODE_MONITOR
      and s = cancelled_0 and n = "Suc 0" and res = "(None, cancelled_1)" and k = 4] one(1)
  have "Receive sim (Suc 0 + 4) MIHOME_MODE_MONITOR cancelled_0 = Some (None, cancelled_1)"
    by blast
  with cancelled_1_ok d one show ?thesis by blast
qed

text \<open>
  C9. When a payload read returns an error, the loop ends in that round: \<open>Receive\<close>
  returns this error, and the failed read is the last thing in the trace, with no further
  read and no event after it. This holds in the first round after the loop is entered and
  in every later round; and whenever the loop returns an error, it is the error of the
  read that ends the trace.
\<close>

theorem read_error_ends_receive:
  "(\<not> Done R (world s) \<and> ReadPayload R (world s) = (Inl e, w') \<longrightarrow>
      receive_loop R (Suc n) s = Some (Some e, s\<lparr>world := w', trace := trace s @ [Read]\<rparr>)) \<and>
   (receive_prepare R md s = (None, s0) \<and> \<not> Done R (world s0) \<and>
    ReadPayload R (world s0) = (Inl e, w') \<longrightarrow>
      Receive R (Suc n) md s = Some (Some e, s0\<lparr>world := w', trace := trace s0 @ [Read]\<rparr>)) \<and>
   (receive_loop R n s = Some (Some e, s') \<longrightarrow>
      (\<exists>sl pre. trace sl = trace s @ pre \<and> \<not> Done R (world sl) \<and>
         ReadPayload R (world sl) = (Inl e, world s') \<and>
         s' = sl\<lparr>world := world s', trace := trace sl @ [Read]\<rparr>))"
proof (intro conjI impI)
  assume "\<not> Done R (world s) \<and> ReadPayload R (world s) = (Inl e, w')"
  then show "receive_loop R (Suc n) s =
      Some (Some e, s\<lparr>world := w', trace := trace s @ [Read]\<rparr>)"
    by (simp add: read_payload_def)
next
  assume "receive_prepare R md s = (None, s0) \<and> \<not> Done R (world s0) \<and>
    ReadPayload R (world s0) = (Inl e, w')"
  then show "Receive R (Suc n) md s =
      Some (Some e, s0\<lparr>world := w', trace := trace s0 @ [Read]\<rparr>)"
    by (simp add: Receive_def read_payload_def)
next
  assume "receive_loop R n s = Some (Some e, s')"
  then show "\<exists>sl pre. trace sl = trace s @ pre \<and> \<not> Done R (world sl) \<and>
         ReadPayload R (world sl) = (Inl e, world s') \<and>
         s' = sl\<lparr>world := world s', trace := trace sl @ [Read]\<rparr>"
    by (rule receive_loop_error_last)
qed

theorem read_error_ends_receive_witness:
  "\<not> Done sim (world read_error_2) \<and>
   ReadPayload sim (world read_error_2) = (Inl (ErrTransceiver 3), read_error_world) \<and>
   receive_loop sim (Suc 0) read_error_2 =
     Some (Some (ErrTransceiver 3),
           read_error_2\<lparr>world := read_error_world, trace := trace read_error_2 @ [Read]\<rparr>) \<and>
   sim_frames read_error_world = [Inr (Some [8])] \<and>
   receive_prepare sim MIHOME_MODE_MONITOR read_fails_0 = (None, read_fails_1) \<and>
   \<not> Done sim (world read_fails_1) \<and>
   Receive sim (Suc 2) MIHOME_MODE_MONITOR read_fails_0 =
     Some (Some (ErrTransceiver 4),
           read_fails_1\<lparr>world := snd (ReadPayload sim (world read_fails_1)),
                        trace := trace read_fails_1 @ [Read]\<rparr>) \<and>
   receive_loop sim 4 read_error_1 = Some (Some (ErrTransceiver 3), read_error_3) \<and>
   (\<exists>sl pre. trace sl = trace read_error_1 @ pre \<and> \<not> Done sim (world sl) \<and>
      ReadPayload sim (world sl) = (Inl (ErrTransceiver 3), world read_error_3) \<and>
      read_error_3 = sl\<lparr>world := world read_error_3, trace := trace sl @ [Read]\<rparr>) \<and>
   reads (issued read_error_1 read_error_3) = 2 \<and>
   events (issued read_error_1 read_error_3) = [\<lparr>ts = 25, message = 7, reason = None\<rparr>]"
proof -
  have d: "\<not> Done sim (world read_error_2)" by (simp add: read_error_2_eq sim_def)
  from read_error_ends_receive [where R = sim and s = read_error_2 and e = "ErrTransceiver 3"
      and w' = read_error_world and n = 0]
    d read_error_2_read
  have one: "receive_loop sim (Suc 0) read_error_2 =
     Some (Some (ErrTransceiver 3),
           read_error_2\<lparr>world := read_error_world, trace := trace read_error_2 @ [Read]\<rparr>)"
    by blast
  have f: "sim_frames read_error_world = [Inr (Some [8])]" by (simp add: read_error_world_def)
  have d2: "\<not> Done sim (world read_fails_1)" by (simp add: read_fails_1_eq sim_def)
  have r2: "ReadPayload sim (world read_fails_1) =
      (Inl (ErrTransceiver 4), snd (ReadPayload sim (world read_fails_1)))"
    by (simp add: read_fails_1_eq sim_simps)
  from read_error_ends_receive [where R = sim and s = read_fails_0 and e = "ErrTransceiver 4"
      and w' = "snd (ReadPayload sim (world read_fails_1))" and n = 2
      and md = MIHOME_MODE_MONITOR and ?s0.0 = read_fails_1]
    read_fails_1_ok d2 r2
  have two: "Receive sim (Suc 2) MIHOME_MODE_MONITOR read_fails_0 =
     Some (Some (ErrTransceiver 4),
           read_fails_1\<lparr>world := snd (ReadPayload sim (world read_fails_1)),
                        trace := trace read_fails_1 @ [Read]\<rparr>)"
    by blast
  from read_error_ends_receive [where R = sim and s = read_error_1 and e = "ErrTransceiver 3"
      and n = 4 and s' = read_error_3]
    read_error_3_loop
  have three: "\<exists>sl pre. trace sl = trace read_error_1 @ pre \<and> \<not> Done sim (world sl) \<and>
      ReadPayload sim (world sl) = (Inl (ErrTransceiver 3), world read_error_3) \<and>
      read_error_3 = sl\<lparr>world := world read_error_3, trace := trace sl @ [Read]\<rparr>"
    by blast
  have c: "reads (issued read_error_1 read_error_3) = 2"
    "events (issued read_error_1 read_error_3) = [\<lparr>ts = 25, message = 7, reason = None\<rparr>]"
    by (simp_all add: read_error_3_eq read_error_2_eq read_error_1_eq issued_def fresh_driver_def
        fsk_calls_def)
  from d read_error_2_read one f read_fails_1_ok d2 two read_error_3_loop three c
  show ?thesis by blast
qed

text \<open>
  C10. The claim: when \<open>On\<close> or \<open>Off\<close> returns the error of a later socket, the
  commands of the earlier sockets have been transmitted. The code at \<open>On(1, 9)\<close> and
  \<open>Off(1, 9)\<close> on the driver that \<open>Open\<close> makes: \<open>ErrBadParameter\<close> for socket
  9 is returned after \<open>SendControl\<close> for socket 1 has returned success, and all that
  was issued are the calls of \<open>setOOKMode\<close>: the command of socket 1 was never
  written. (The sockets are taken in list order and nothing is checked before its turn,
  see \<open>On_sockets_append\<close>.)
\<close>

theorem On_reports_bad_socket_after_silent_send:
  "On sim [1, 9] (fresh_driver [] []) =
     (Some ErrBadParameter,
      (fresh_driver [] [])
        \<lparr>world := \<lparr>sim_modulation = RFM_MODULATION_OOK, sim_mode = RFM_MODE_STDBY,
                   sim_failures = [], sim_frames = [], sim_clock = 17\<rparr>,
         mode := MIHOME_MODE_CONTROL,
         trace := map Radio ook_calls\<rparr>) \<and>
   Off sim [1, 9] (fresh_driver [] []) =
     (Some ErrBadParameter,
      (fresh_driver [] [])
        \<lparr>world := \<lparr>sim_modulation = RFM_MODULATION_OOK, sim_mode = RFM_MODE_STDBY,
                   sim_failures = [], sim_frames = [], sim_clock = 17\<rparr>,
         mode := MIHOME_MODE_CONTROL,
         trace := map Radio ook_calls\<rparr>)"
  by (simp add: OOK_ON_1_def OOK_OFF_1_def sim_simps driver_simps)

theorem On_reports_bad_socket_after_silent_send_witness:
  "fst (On sim [1, 9] (fresh_driver [] [])) = Some ErrBadParameter \<and>
   radio_calls (issued (fresh_driver [] []) (snd (On sim [1, 9] (fresh_driver [] [])))) = ook_calls \<and>
   fst (Off sim [1, 9] (fresh_driver [] [])) = Some ErrBadParameter \<and>
   radio_calls (issued (fresh_driver [] []) (snd (Off sim [1, 9] (fresh_driver [] [])))) = ook_calls"
proof -
  note on = On_reports_bad_socket_after_silent_send [THEN conjunct1]
  note off = On_reports_bad_socket_after_silent_send [THEN conjunct2]
  show ?thesis
    by (simp only: on off fst_conv snd_conv)
       (simp add: issued_def radio_calls_map_Radio fresh_driver_def)
qed

end
